theory Spec2Isabelle
  imports Complex_Main "HOL-Library.Multiset"
begin

section \<open>Python errors\<close>

text \<open>
  The exceptions that \<^verbatim>\<open>embed_proc.py\<close> can raise through plain Python and numpy
  operations. A function that can raise returns \<open>error + 'a\<close>, with \<open>Inl\<close> for the
  exception. Floating-point numbers are idealised as \<open>real\<close>: rounding is not modelled.
\<close>

datatype error = TypeError | IndexError | ValueError | AttributeError

section \<open>Dense matrices (numpy two-dimensional arrays)\<close>

text \<open>
  A two-dimensional array keeps its shape even when one of its axes is empty
  (\<^verbatim>\<open>c_occ[:, []]\<close> has shape \<open>(n_ao, 0)\<close>), so the shape is stored beside the rows.
\<close>

record mat =
  nrows :: nat
  ncols :: nat
  rws :: "real list list"

definition mk_mat :: "nat \<Rightarrow> nat \<Rightarrow> (nat \<Rightarrow> nat \<Rightarrow> real) \<Rightarrow> mat" where
  "mk_mat r c f = \<lparr>nrows = r, ncols = c, rws = map (\<lambda>i. map (f i) [0..<c]) [0..<r]\<rparr>"

definition ent :: "mat \<Rightarrow> nat \<Rightarrow> nat \<Rightarrow> real" where
  "ent A i j = rws A ! i ! j"

definition wf_mat :: "mat \<Rightarrow> bool" where
  "wf_mat A \<longleftrightarrow> length (rws A) = nrows A \<and> list_all (\<lambda>r. length r = ncols A) (rws A)"

text \<open>\<^verbatim>\<open>A[:, idx]\<close> for a list \<open>idx\<close> of column indices that are in range.\<close>

definition select_cols :: "mat \<Rightarrow> nat list \<Rightarrow> mat" where
  "select_cols A idx = mk_mat (nrows A) (length idx) (\<lambda>i j. ent A i (idx ! j))"

text \<open>
  \<^verbatim>\<open>A[:, start:stop]\<close> for non-negative bounds: a slice never raises, it is clipped
  to the columns that exist.
\<close>

definition slice_cols :: "mat \<Rightarrow> nat \<Rightarrow> nat \<Rightarrow> mat" where
  "slice_cols A start stop = select_cols A [start..<min stop (ncols A)]"

text \<open>The list of columns of a matrix, left to right.\<close>

definition columns :: "mat \<Rightarrow> real list list" where
  "columns A = map (\<lambda>j. map (\<lambda>i. ent A i j) [0..<nrows A]) [0..<ncols A]"

definition transpose_mat :: "mat \<Rightarrow> mat" where
  "transpose_mat A = mk_mat (ncols A) (nrows A) (\<lambda>i j. ent A j i)"

definition mat_mul :: "mat \<Rightarrow> mat \<Rightarrow> mat" where
  "mat_mul A B = mk_mat (nrows A) (ncols B) (\<lambda>i j. \<Sum>k\<leftarrow>[0..<ncols A]. ent A i k * ent B k j)"

text \<open>\<^verbatim>\<open>A @ B\<close>: numpy raises ValueError when the inner dimensions differ.\<close>

definition matmul :: "mat \<Rightarrow> mat \<Rightarrow> error + mat" where
  "matmul A B = (if ncols A = nrows B then Inr (mat_mul A B) else Inl ValueError)"

text \<open>The Frobenius inner product of two matrices of one shape.\<close>

definition frobenius :: "mat \<Rightarrow> mat \<Rightarrow> real" where
  "frobenius A B = (\<Sum>i\<leftarrow>[0..<nrows A]. \<Sum>j\<leftarrow>[0..<ncols A]. ent A i j * ent B i j)"

text \<open>
  \<^verbatim>\<open>np.einsum('ij,ij->', A, B)\<close>: the sum of the elementwise products. numpy
  broadcasts the operands against each other: along an axis where one operand has length
  one, its single entry is repeated; lengths that differ otherwise raise ValueError.
\<close>

definition broadcast_dim :: "nat \<Rightarrow> nat \<Rightarrow> nat option" where
  "broadcast_dim a b =
     (if a = b then Some a else if a = 1 then Some b else if b = 1 then Some a else None)"

definition broadcast_ent :: "mat \<Rightarrow> nat \<Rightarrow> nat \<Rightarrow> real" where
  "broadcast_ent A i j = ent A (if nrows A = 1 then 0 else i) (if ncols A = 1 then 0 else j)"

definition einsum_ij_ij :: "mat \<Rightarrow> mat \<Rightarrow> error + real" where
  "einsum_ij_ij A B =
     (case broadcast_dim (nrows A) (nrows B) of
        None \<Rightarrow> Inl ValueError
      | Some r \<Rightarrow>
          (case broadcast_dim (ncols A) (ncols B) of
             None \<Rightarrow> Inl ValueError
           | Some c \<Rightarrow>
               Inr (\<Sum>i\<leftarrow>[0..<r]. \<Sum>j\<leftarrow>[0..<c]. broadcast_ent A i j * broadcast_ent B i j)))"

text \<open>
  \<^verbatim>\<open>np.trace(A[np.ix_(idx, idx)])\<close>: the mesh restricts both axes to \<open>idx\<close>; an index
  beyond either axis raises IndexError, and the trace of the block adds its diagonal.
\<close>

definition mesh_trace :: "mat \<Rightarrow> nat list \<Rightarrow> error + real" where
  "mesh_trace A idx =
     (if list_all (\<lambda>p. p < nrows A \<and> p < ncols A) idx
      then Inr (\<Sum>p\<leftarrow>idx. ent A p p) else Inl IndexError)"

section \<open>The mean-field object\<close>

text \<open>
  \<^verbatim>\<open>mol.offset_ao_by_atom()\<close> is a table with one row per atom; the code reads its
  columns 2 and 3, the first AO of the atom and the one past its last. \<open>ao_offsets\<close> holds
  these two columns. The basis of a molecule is a value that only the external basis
  routines look into.
\<close>

type_synonym basis = "nat list list"

record mol =
  ao_offsets :: "(nat \<times> nat) list"
  basis :: basis
  nelectron :: int
  nao :: nat

record mean_field =
  mf_mol :: mol
  mo_coeff :: mat
  mo_occ :: "real list"
  get_ovlp :: mat
  get_fock :: mat
  get_veff :: "mat \<Rightarrow> mat"
  energy_elec :: "mat \<Rightarrow> mat \<Rightarrow> mat \<Rightarrow> real"
  e_tot :: real
  xc :: "string option"
  with_df :: "string option"

text \<open>
  \<^verbatim>\<open>offset_ao_by_atom[atom, 2]\<close> and \<^verbatim>\<open>offset_ao_by_atom[atom, 3]\<close>: a numpy row
  index is a Python integer, counts from the end when negative, and raises IndexError
  out of range.
\<close>

definition atom_aos :: "(nat \<times> nat) list \<Rightarrow> int \<Rightarrow> error + (nat \<times> nat)" where
  "atom_aos tbl atom =
     (if 0 \<le> atom \<and> atom < int (length tbl) then Inr (tbl ! nat atom)
      else if - int (length tbl) \<le> atom \<and> atom < 0 then Inr (tbl ! nat (int (length tbl) + atom))
      else Inl IndexError)"

text \<open>
  \<^verbatim>\<open>pyscf_mf.mo_coeff[:, pyscf_mf.mo_occ > 0]\<close>: a boolean mask must be as long as the
  axis it indexes.
\<close>

definition occupied_coeff :: "mean_field \<Rightarrow> error + mat" where
  "occupied_coeff mf =
     (if length (mo_occ mf) = ncols (mo_coeff mf)
      then Inr (select_cols (mo_coeff mf) (filter (\<lambda>k. mo_occ mf ! k > 0) [0..<ncols (mo_coeff mf)]))
      else Inl IndexError)"

text \<open>The first statements of every partitioner: \<^verbatim>\<open>if c_occ is None: c_occ = ...\<close>.\<close>

definition given_or_occupied :: "mean_field \<Rightarrow> mat option \<Rightarrow> error + mat" where
  "given_or_occupied mf c_occ = (case c_occ of None \<Rightarrow> occupied_coeff mf | Some c \<Rightarrow> Inr c)"

section \<open>Density matrices\<close>

text \<open>
  \<^verbatim>\<open>make_dm\<close> is called with a scalar occupation (\<^verbatim>\<open>mo_occ[mo_i]\<close>, \<^verbatim>\<open>1\<close>) and with an
  array of occupations, one per column.
\<close>

datatype occupation = Scalar real | Vector "real list"

text \<open>
  Modelled from the spec: \<^verbatim>\<open>make_dm\<close> of \<^verbatim>\<open>projectorEmbedding.embed_utils\<close> is not among
  the sources. The spec's DensityBuilder "builds a one-particle density matrix from an
  orbital-coefficient/occupation pair": \<open>D i j = \<Sum>k. C i k * occ k * C j k\<close>. An array of
  occupations whose length is not the number of columns cannot be paired with them.
\<close>

definition density :: "mat \<Rightarrow> (nat \<Rightarrow> real) \<Rightarrow> mat" where
  "density C occ =
     mk_mat (nrows C) (nrows C) (\<lambda>i j. \<Sum>k\<leftarrow>[0..<ncols C]. ent C i k * occ k * ent C j k)"

definition make_dm :: "mat \<Rightarrow> occupation \<Rightarrow> error + mat" where
  "make_dm C occ =
     (case occ of
        Scalar s \<Rightarrow> Inr (density C (\<lambda>k. s))
      | Vector v \<Rightarrow> if length v = ncols C then Inr (density C (\<lambda>k. v ! k)) else Inl ValueError)"

section \<open>mulliken\_partition\<close>

text \<open>
  \<^verbatim>\<open>if internal.localize: c_occ = lo.PM(pyscf_mf.mol, c_occ).kernel()\<close>, with \<open>pm\<close> for
  the external localisation.
\<close>

definition localized :: "(mol \<Rightarrow> mat \<Rightarrow> mat) \<Rightarrow> bool \<Rightarrow> mol \<Rightarrow> mat \<Rightarrow> mat" where
  "localized pm localize m c = (if localize then pm m c else c)"

text \<open>
  \<^verbatim>\<open>q_atom_mo\<close>: the population of one orbital on one atom, from the atom's AO columns
  of the orbital's density and of the overlap matrix.
\<close>

definition q_atom_mo :: "mat \<Rightarrow> mat \<Rightarrow> nat \<times> nat \<Rightarrow> error + real" where
  "q_atom_mo rdm_mo overlap oe =
     einsum_ij_ij (slice_cols rdm_mo (fst oe) (snd oe)) (slice_cols overlap (fst oe) (snd oe))"

text \<open>
  The inner loop \<^verbatim>\<open>for atom in atoms\<close>: \<open>Inr True\<close> when it leaves through \<^verbatim>\<open>break\<close>
  (the orbital has been appended to \<^verbatim>\<open>active_mos\<close>), \<open>Inr False\<close> when it runs out.
\<close>

fun atom_loop :: "(nat \<times> nat) list \<Rightarrow> mat \<Rightarrow> mat \<Rightarrow> real \<Rightarrow> int list \<Rightarrow> error + bool" where
  "atom_loop tbl rdm_mo overlap thr [] = Inr False"
| "atom_loop tbl rdm_mo overlap thr (atom # atoms) =
     (case atom_aos tbl atom of
        Inl e \<Rightarrow> Inl e
      | Inr oe \<Rightarrow>
          (case q_atom_mo rdm_mo overlap oe of
             Inl e \<Rightarrow> Inl e
           | Inr q \<Rightarrow> if q > thr then Inr True else atom_loop tbl rdm_mo overlap thr atoms))"

text \<open>The body of \<^verbatim>\<open>for mo_i in range(c_occ.shape[1])\<close> up to the append.\<close>

definition mo_is_active ::
  "mean_field \<Rightarrow> mat \<Rightarrow> real \<Rightarrow> int list \<Rightarrow> nat \<Rightarrow> error + bool" where
  "mo_is_active mf c_occ thr atoms mo_i =
     (if mo_i < length (mo_occ mf)
      then (case make_dm (select_cols c_occ [mo_i]) (Scalar (mo_occ mf ! mo_i)) of
              Inl e \<Rightarrow> Inl e
            | Inr rdm_mo \<Rightarrow> atom_loop (ao_offsets (mf_mol mf)) rdm_mo (get_ovlp mf) thr atoms)
      else Inl IndexError)"

text \<open>The outer loop, with \<^verbatim>\<open>active_mos\<close> as the accumulator.\<close>

fun mo_loop ::
  "mean_field \<Rightarrow> mat \<Rightarrow> real \<Rightarrow> int list \<Rightarrow> nat list \<Rightarrow> nat list \<Rightarrow> error + nat list" where
  "mo_loop mf c_occ thr atoms [] active_mos = Inr active_mos"
| "mo_loop mf c_occ thr atoms (mo_i # rest) active_mos =
     (case mo_is_active mf c_occ thr atoms mo_i of
        Inl e \<Rightarrow> Inl e
      | Inr b \<Rightarrow> mo_loop mf c_occ thr atoms rest (if b then active_mos @ [mo_i] else active_mos))"

text \<open>
  The closure \<^verbatim>\<open>internal\<close>. \<open>charge_threshold\<close> and \<open>localize\<close> are the attributes
  stored on the closure. \<open>active_atoms\<close> is \<open>None\<close> or a Python list of atom indices.
\<close>

definition mulliken_partition ::
  "(mol \<Rightarrow> mat \<Rightarrow> mat) \<Rightarrow> real \<Rightarrow> bool \<Rightarrow> mean_field \<Rightarrow> int list option \<Rightarrow> mat option
     \<Rightarrow> error + (mat \<times> mat)" where
  "mulliken_partition pm charge_threshold localize pyscf_mf active_atoms c_occ_arg =
     (case given_or_occupied pyscf_mf c_occ_arg of
        Inl e \<Rightarrow> Inl e
      | Inr c0 \<Rightarrow>
          (let c_occ = localized pm localize (mf_mol pyscf_mf) c0 in
           case active_atoms of
             Some [] \<Rightarrow> Inr (select_cols c_occ [], c_occ)
           | None \<Rightarrow> Inr (c_occ, select_cols c_occ [])
           | Some atoms \<Rightarrow>
               (case mo_loop pyscf_mf c_occ charge_threshold atoms [0..<ncols c_occ] [] of
                  Inl e \<Rightarrow> Inl e
                | Inr active_mos \<Rightarrow>
                    (let frozen_mos = filter (\<lambda>i. i \<notin> set active_mos) [0..<ncols c_occ]
                     in Inr (select_cols c_occ active_mos, select_cols c_occ frozen_mos)))))"

section \<open>occupancy\_partition\<close>

text \<open>
  \<^verbatim>\<open>for atom in active_atoms: active_aos += list(range(offset, extent))\<close>
\<close>

fun collect_aos :: "(nat \<times> nat) list \<Rightarrow> int list \<Rightarrow> nat list \<Rightarrow> error + nat list" where
  "collect_aos tbl [] active_aos = Inr active_aos"
| "collect_aos tbl (atom # atoms) active_aos =
     (case atom_aos tbl atom of
        Inl e \<Rightarrow> Inl e
      | Inr oe \<Rightarrow> collect_aos tbl atoms (active_aos @ [fst oe..<snd oe]))"

text \<open>The test of one orbital: \<^verbatim>\<open>np.trace((rdm_mo @ overlap)[mesh]) > threshold\<close>.\<close>

definition occupancy_is_active :: "mat \<Rightarrow> mat \<Rightarrow> nat list \<Rightarrow> real \<Rightarrow> nat \<Rightarrow> error + bool" where
  "occupancy_is_active c_occ overlap active_aos thr mo_i =
     (case make_dm (select_cols c_occ [mo_i]) (Scalar 1) of
        Inl e \<Rightarrow> Inl e
      | Inr rdm_mo \<Rightarrow>
          (case matmul rdm_mo overlap of
             Inl e \<Rightarrow> Inl e
           | Inr dm_mo \<Rightarrow>
               (case mesh_trace dm_mo active_aos of
                  Inl e \<Rightarrow> Inl e
                | Inr tr \<Rightarrow> Inr (tr > thr))))"

fun occupancy_loop ::
  "mat \<Rightarrow> mat \<Rightarrow> nat list \<Rightarrow> real \<Rightarrow> nat list \<Rightarrow> nat list \<times> nat list
     \<Rightarrow> error + (nat list \<times> nat list)" where
  "occupancy_loop c_occ overlap active_aos thr [] acc = Inr acc"
| "occupancy_loop c_occ overlap active_aos thr (mo_i # rest) acc =
     (case occupancy_is_active c_occ overlap active_aos thr mo_i of
        Inl e \<Rightarrow> Inl e
      | Inr b \<Rightarrow>
          occupancy_loop c_occ overlap active_aos thr rest
            (if b then (fst acc @ [mo_i], snd acc) else (fst acc, snd acc @ [mo_i])))"

definition occupancy_partition ::
  "(mol \<Rightarrow> mat \<Rightarrow> mat) \<Rightarrow> real \<Rightarrow> bool \<Rightarrow> mean_field \<Rightarrow> int list option \<Rightarrow> mat option
     \<Rightarrow> error + (mat \<times> mat)" where
  "occupancy_partition pm occupancy_threshold localize pyscf_mf active_atoms c_occ_arg =
     (case given_or_occupied pyscf_mf c_occ_arg of
        Inl e \<Rightarrow> Inl e
      | Inr c0 \<Rightarrow>
          (let c_occ = localized pm localize (mf_mol pyscf_mf) c0 in
           case active_atoms of
             Some [] \<Rightarrow> Inr (select_cols c_occ [], c_occ)
           | None \<Rightarrow> Inr (c_occ, select_cols c_occ [])
           | Some atoms \<Rightarrow>
               (case collect_aos (ao_offsets (mf_mol pyscf_mf)) atoms [] of
                  Inl e \<Rightarrow> Inl e
                | Inr active_aos \<Rightarrow>
                    (case occupancy_loop c_occ (get_ovlp pyscf_mf) active_aos
                            occupancy_threshold [0..<ncols c_occ] ([], []) of
                       Inl e \<Rightarrow> Inl e
                     | Inr (active_mos, frozen_mos) \<Rightarrow>
                         Inr (select_cols c_occ active_mos, select_cols c_occ frozen_mos)))))"

section \<open>spade\_partition\<close>

text \<open>\<^verbatim>\<open>A[idx, :]\<close> for a list of row indices: an index beyond the rows raises.\<close>

definition select_rows :: "mat \<Rightarrow> nat list \<Rightarrow> error + mat" where
  "select_rows A idx =
     (if list_all (\<lambda>p. p < nrows A) idx
      then Inr (mk_mat (length idx) (ncols A) (\<lambda>i j. ent A (idx ! i) j))
      else Inl IndexError)"

text \<open>
  \<^verbatim>\<open>deltas = [-(s_vals[i + 1] - s_vals[i]) for i in range(len(s_vals)-1)]\<close>
\<close>

definition gaps :: "real list \<Rightarrow> real list" where
  "gaps s = map (\<lambda>i. - (s ! (i + 1) - s ! i)) [0..<length s - 1]"

text \<open>
  The choice of \<^verbatim>\<open>n_act_mos\<close>. \<open>argpartition_last deltas\<close> stands for numpy's
  \<^verbatim>\<open>np.argpartition(deltas, -1)[-1]\<close>; on an empty sequence \<^verbatim>\<open>np.argpartition\<close>
  returns an empty array and the index \<^verbatim>\<open>[-1]\<close> into it raises IndexError.
  \<open>n_vecs\<close> is \<^verbatim>\<open>v_vecs.shape[0]\<close>.
\<close>

definition rank_gap :: "(real list \<Rightarrow> nat) \<Rightarrow> real list \<Rightarrow> nat \<Rightarrow> error + nat" where
  "rank_gap argpartition_last s_vals n_vecs =
     (if length s_vals = 1 then Inr 1
      else (let s = (if length s_vals \<noteq> n_vecs then s_vals @ [0] else s_vals);
                deltas = gaps s
            in if deltas = [] then Inl IndexError else Inr (argpartition_last deltas + 1)))"

text \<open>
  The rows of the orthogonalised coefficients that belong to the active atoms
  (lines 122 to 127). \<open>sqrtm\<close> is \<^verbatim>\<open>fractional_matrix_power(overlap, 0.5)\<close>. Iterating
  over \<^verbatim>\<open>active_atoms\<close> when it is \<^verbatim>\<open>None\<close> raises TypeError.
\<close>

definition c_orthogonal_ao ::
  "(mat \<Rightarrow> mat) \<Rightarrow> mean_field \<Rightarrow> int list option \<Rightarrow> mat \<Rightarrow> error + mat" where
  "c_orthogonal_ao sqrtm pyscf_mf active_atoms c_occ =
     (case active_atoms of
        None \<Rightarrow> Inl TypeError
      | Some atoms \<Rightarrow>
          (case collect_aos (ao_offsets (mf_mol pyscf_mf)) atoms [] of
             Inl e \<Rightarrow> Inl e
           | Inr active_aos \<Rightarrow>
               (case matmul (sqrtm (get_ovlp pyscf_mf)) c_occ of
                  Inl e \<Rightarrow> Inl e
                | Inr sc \<Rightarrow> select_rows sc active_aos)))"

text \<open>
  \<^verbatim>\<open>c_a = c_occ @ v_vecs.T[:, :n_act_mos]\<close> and
  \<^verbatim>\<open>c_b = c_occ @ v_vecs.T[:, n_act_mos:]\<close>
\<close>

definition rotate_split :: "mat \<Rightarrow> mat \<Rightarrow> nat \<Rightarrow> error + (mat \<times> mat)" where
  "rotate_split c_occ v_vecs n_act_mos =
     (let v_t = transpose_mat v_vecs in
      case matmul c_occ (slice_cols v_t 0 n_act_mos) of
        Inl e \<Rightarrow> Inl e
      | Inr c_a \<Rightarrow>
          (case matmul c_occ (slice_cols v_t n_act_mos (ncols v_t)) of
             Inl e \<Rightarrow> Inl e
           | Inr c_b \<Rightarrow> Inr (c_a, c_b)))"

text \<open>
  \<open>svd\<close> is \<^verbatim>\<open>np.linalg.svd(..., full_matrices=True)\<close> without its first result: the
  singular values and the matrix whose rows are the right singular vectors.
\<close>

definition spade_partition ::
  "(mat \<Rightarrow> mat) \<Rightarrow> (mat \<Rightarrow> real list \<times> mat) \<Rightarrow> (real list \<Rightarrow> nat)
     \<Rightarrow> mean_field \<Rightarrow> int list option \<Rightarrow> mat option \<Rightarrow> error + (mat \<times> mat)" where
  "spade_partition sqrtm svd argpartition_last pyscf_mf active_atoms c_occ_arg =
     (case given_or_occupied pyscf_mf c_occ_arg of
        Inl e \<Rightarrow> Inl e
      | Inr c_occ \<Rightarrow>
          (case c_orthogonal_ao sqrtm pyscf_mf active_atoms c_occ of
             Inl e \<Rightarrow> Inl e
           | Inr c_orth \<Rightarrow>
               (case rank_gap argpartition_last (fst (svd c_orth)) (nrows (snd (svd c_orth))) of
                  Inl e \<Rightarrow> Inl e
                | Inr n_act_mos \<Rightarrow> rotate_split c_occ (snd (svd c_orth)) n_act_mos)))"

text \<open>
  What numpy documents of its two routines, as far as the properties below use it: the singular
  value decomposition of an \<open>m \<times> n\<close> matrix with \<^verbatim>\<open>full_matrices=True\<close> has
  \<open>min m n\<close> singular values and an \<open>n \<times> n\<close> matrix of right singular vectors, and the
  last entry of \<^verbatim>\<open>np.argpartition(deltas, -1)\<close> is the index of a greatest element.
\<close>

definition svd_shape :: "mat \<Rightarrow> real list \<times> mat \<Rightarrow> bool" where
  "svd_shape X sv \<longleftrightarrow>
     length (fst sv) = min (nrows X) (ncols X) \<and> nrows (snd sv) = ncols X
       \<and> ncols (snd sv) = ncols X"

definition is_argmax :: "real list \<Rightarrow> nat \<Rightarrow> bool" where
  "is_argmax ds i \<longleftrightarrow> i < length ds \<and> list_all (\<lambda>d. d \<le> ds ! i) ds"

text \<open>
  The rows of a matrix are orthonormal: \<open>U U\<^sup>T\<close> is the identity. The localisation is
  specified as a unitary rotation of the occupied coefficients, and the right singular
  vectors of a decomposition are orthonormal.
\<close>

definition orthonormal_rows :: "mat \<Rightarrow> bool" where
  "orthonormal_rows U \<longleftrightarrow>
     list_all (\<lambda>p. list_all (\<lambda>q. (\<Sum>k\<leftarrow>[0..<ncols U]. ent U p k * ent U q k)
                                   = (if p = q then 1 else 0)) [0..<nrows U]) [0..<nrows U]"

text \<open>
  What the two loops of the \<^verbatim>\<open>mulliken_partition\<close> closure decide about column
  \<open>mo_i\<close> when they run through: whether some active atom, read from the offset table,
  has a \<^verbatim>\<open>q_atom_mo\<close> above the threshold. The density is the one of line 42, with
  the occupation \<^verbatim>\<open>pyscf_mf.mo_occ[mo_i]\<close>.
\<close>

definition exceeds_on_some_atom :: "mean_field \<Rightarrow> mat \<Rightarrow> real \<Rightarrow> int list \<Rightarrow> nat \<Rightarrow> bool" where
  "exceeds_on_some_atom mf c_occ thr atoms mo_i \<longleftrightarrow>
     list_ex (\<lambda>atom. case atom_aos (ao_offsets (mf_mol mf)) atom of
                       Inl e \<Rightarrow> False
                     | Inr oe \<Rightarrow>
                         (case q_atom_mo (density (select_cols c_occ [mo_i])
                                            (\<lambda>k. mo_occ mf ! mo_i)) (get_ovlp mf) oe of
                            Inl e \<Rightarrow> False
                          | Inr q \<Rightarrow> q > thr)) atoms"

text \<open>
  The population rule in the spec's words: the Frobenius inner product of the orbital's
  own density, restricted to the atom's AO columns, with the same columns of the overlap
  matrix; an orbital is active when some active atom's population exceeds the threshold.
  Column \<open>mo_i\<close> of the occupied coefficient matrix is the \<open>mo_i\<close>-th occupied orbital,
  and its occupation is the \<open>mo_i\<close>-th positive occupation, as in
  \<^verbatim>\<open>make_dm(c_occ, init_mf.mo_occ[init_mf.mo_occ > 0])\<close> on line 157.
\<close>

definition orbital_population :: "mean_field \<Rightarrow> mat \<Rightarrow> nat \<Rightarrow> nat \<times> nat \<Rightarrow> real" where
  "orbital_population mf c_occ mo_i oe =
     frobenius
       (slice_cols (density (select_cols c_occ [mo_i])
                      (\<lambda>k. filter (\<lambda>x. x > 0) (mo_occ mf) ! mo_i)) (fst oe) (snd oe))
       (slice_cols (get_ovlp mf) (fst oe) (snd oe))"

definition active_by_population :: "mean_field \<Rightarrow> mat \<Rightarrow> real \<Rightarrow> int list \<Rightarrow> nat \<Rightarrow> bool" where
  "active_by_population mf c_occ thr atoms mo_i \<longleftrightarrow>
     list_ex (\<lambda>atom. case atom_aos (ao_offsets (mf_mol mf)) atom of
                       Inl e \<Rightarrow> False
                     | Inr oe \<Rightarrow> orbital_population mf c_occ mo_i oe > thr) atoms"

text \<open>One column of a matrix.\<close>

definition column :: "mat \<Rightarrow> nat \<Rightarrow> real list" where
  "column A j = map (\<lambda>i. ent A i j) [0..<nrows A]"

section \<open>embedding\_procedure\<close>

subsection \<open>Elementwise arithmetic\<close>

definition mat_add :: "mat \<Rightarrow> mat \<Rightarrow> mat" where
  "mat_add A B = mk_mat (nrows A) (ncols A) (\<lambda>i j. ent A i j + ent B i j)"

definition mat_sub :: "mat \<Rightarrow> mat \<Rightarrow> mat" where
  "mat_sub A B = mk_mat (nrows A) (ncols A) (\<lambda>i j. ent A i j - ent B i j)"

definition mat_scale :: "real \<Rightarrow> mat \<Rightarrow> mat" where
  "mat_scale x A = mk_mat (nrows A) (ncols A) (\<lambda>i j. x * ent A i j)"

definition same_shape :: "mat \<Rightarrow> mat \<Rightarrow> bool" where
  "same_shape A B \<longleftrightarrow> nrows A = nrows B \<and> ncols A = ncols B"

text \<open>
  \<^verbatim>\<open>A + B\<close> and \<^verbatim>\<open>A - B\<close> on the matrices of one mean-field object, which all have the
  shape \<open>(n_ao, n_ao)\<close>; operands of different shapes raise ValueError (numpy's
  broadcasting of a shape with an axis of length one does not arise between them).
\<close>

definition add_arrays :: "mat \<Rightarrow> mat \<Rightarrow> error + mat" where
  "add_arrays A B = (if same_shape A B then Inr (mat_add A B) else Inl ValueError)"

definition sub_arrays :: "mat \<Rightarrow> mat \<Rightarrow> error + mat" where
  "sub_arrays A B = (if same_shape A B then Inr (mat_sub A B) else Inl ValueError)"

text \<open>\<^verbatim>\<open>A @ B @ C\<close> associates to the left.\<close>

definition matmul3 :: "mat \<Rightarrow> mat \<Rightarrow> mat \<Rightarrow> error + mat" where
  "matmul3 A B C = (case matmul A B of Inl e \<Rightarrow> Inl e | Inr AB \<Rightarrow> matmul AB C)"

text \<open>\<^verbatim>\<open>A[np.ix_(idx, idx)]\<close>\<close>

definition mesh_select :: "mat \<Rightarrow> nat list \<Rightarrow> error + mat" where
  "mesh_select A idx =
     (if list_all (\<lambda>p. p < nrows A \<and> p < ncols A) idx
      then Inr (mk_mat (length idx) (length idx) (\<lambda>i j. ent A (idx ! i) (idx ! j)))
      else Inl IndexError)"

text \<open>\<^verbatim>\<open>int(x)\<close> of a float rounds towards zero.\<close>

definition py_int :: "real \<Rightarrow> int" where
  "py_int x = (if 0 \<le> x then \<lfloor>x\<rfloor> else \<lceil>x\<rceil>)"

text \<open>\<^verbatim>\<open>str.lower()\<close> on the ASCII letters that method names are written in.\<close>

definition lower_char :: "char \<Rightarrow> char" where
  "lower_char c =
     (if 65 \<le> (of_char c :: nat) \<and> (of_char c :: nat) \<le> 90
      then char_of ((of_char c :: nat) + 32) else c)"

definition lower :: "string \<Rightarrow> string" where
  "lower s = map lower_char s"

subsection \<open>The external solvers\<close>

text \<open>
  A solver object of pyscf is described by what the procedure sets on it: the molecule,
  the family (\<^verbatim>\<open>scf.RHF\<close>, or \<^verbatim>\<open>dft.RKS\<close> with the functional assigned to \<^verbatim>\<open>xc\<close>), the
  auxiliary basis when it is wrapped by \<^verbatim>\<open>df.density_fit\<close>, and the matrix that its
  \<^verbatim>\<open>get_hcore\<close> is replaced by.
\<close>

datatype family = RHF | RKS "string option"

record solver =
  s_mol :: mol
  s_family :: family
  s_auxbasis :: "string option"
  s_hcore :: mat

text \<open>
  What the procedure calls outside \<^verbatim>\<open>embed_proc.py\<close>. The results that a solver holds after
  \<^verbatim>\<open>kernel(dm0)\<close> depend on the solver and on the starting density \<open>dm0\<close>.
  \<open>flatten_basis\<close>, \<open>screen_aos\<close>, \<open>truncate_basis\<close> and \<open>purify\<close> belong to
  \<^verbatim>\<open>projectorEmbedding.embed_utils\<close>, which is not among the sources; the procedure's
  statements do not depend on what they compute.
\<close>

record externals =
  mol_build :: "mol \<Rightarrow> basis \<Rightarrow> mol"
  flatten_basis :: "mol \<Rightarrow> basis"
  screen_aos :: "mol \<Rightarrow> int list option \<Rightarrow> mat \<Rightarrow> mat \<Rightarrow> real \<Rightarrow> nat list \<times> bool list"
  truncate_basis :: "mol \<Rightarrow> bool list \<Rightarrow> basis"
  purify :: "mat \<Rightarrow> mat \<Rightarrow> mat"
  scf_kernel :: "solver \<Rightarrow> mat \<Rightarrow> real"
  scf_make_rdm1 :: "solver \<Rightarrow> mat \<Rightarrow> mat"
  scf_get_veff :: "solver \<Rightarrow> mat \<Rightarrow> mat \<Rightarrow> mat"
  scf_energy_elec :: "solver \<Rightarrow> mat \<Rightarrow> mat \<Rightarrow> mat \<Rightarrow> mat \<Rightarrow> real"
  scf_energy_nuc :: "solver \<Rightarrow> real"
  mp2_e_corr :: "solver \<Rightarrow> mat \<Rightarrow> real"
  ccsd_emp2 :: "solver \<Rightarrow> mat \<Rightarrow> real"
  ccsd_e_corr :: "solver \<Rightarrow> mat \<Rightarrow> real"
  ccsd_t :: "solver \<Rightarrow> mat \<Rightarrow> real"

subsection \<open>Densities and the embedding potential (lines 148 to 175)\<close>

text \<open>The local variables that the later stages read.\<close>

record embed_state =
  st_mol :: mol
  st_dens_ab :: mat
  st_dens_a :: mat
  st_dens_b :: mat
  st_v_a :: mat
  st_hcore_a_in_b :: mat
  st_energy_a :: real

text \<open>
  \<^verbatim>\<open>hcore_a_in_b = f_ab - v_a\<close>, followed by the in-place update that depends on
  \<^verbatim>\<open>mu_val\<close>.
\<close>

definition embedding_potential ::
  "mat \<Rightarrow> mat \<Rightarrow> mat \<Rightarrow> mat \<Rightarrow> real option \<Rightarrow> error + mat" where
  "embedding_potential f_ab v_a ovlp dens_b mu_val =
     (case sub_arrays f_ab v_a of
        Inl e \<Rightarrow> Inl e
      | Inr hcore_a_in_b \<Rightarrow>
          (case mu_val of
             None \<Rightarrow>
               (case matmul3 f_ab dens_b ovlp of
                  Inl e \<Rightarrow> Inl e
                | Inr fds \<Rightarrow>
                    (case matmul3 ovlp dens_b f_ab of
                       Inl e \<Rightarrow> Inl e
                     | Inr sdf \<Rightarrow>
                         (case add_arrays fds sdf of
                            Inl e \<Rightarrow> Inl e
                          | Inr both \<Rightarrow> sub_arrays hcore_a_in_b (mat_scale (1/2) both))))
           | Some mu \<Rightarrow>
               (case matmul3 ovlp dens_b ovlp of
                  Inl e \<Rightarrow> Inl e
                | Inr sds \<Rightarrow> add_arrays hcore_a_in_b (mat_scale mu sds))))"

definition build_embedding ::
  "(mean_field \<Rightarrow> int list option \<Rightarrow> mat option \<Rightarrow> error + (mat \<times> mat))
     \<Rightarrow> mean_field \<Rightarrow> int list option \<Rightarrow> real option \<Rightarrow> error + embed_state" where
  "build_embedding distribute_mos init_mf active_atoms mu_val =
     (case occupied_coeff init_mf of
        Inl e \<Rightarrow> Inl e
      | Inr c_occ \<Rightarrow>
     (case distribute_mos init_mf active_atoms (Some c_occ) of
        Inl e \<Rightarrow> Inl e
      | Inr (c_occ_a, c_occ_b) \<Rightarrow>
     (case make_dm c_occ (Vector (filter (\<lambda>x. x > 0) (mo_occ init_mf))) of
        Inl e \<Rightarrow> Inl e
      | Inr dens_ab \<Rightarrow>
     (case make_dm c_occ_a (Vector (take (ncols c_occ_a) (mo_occ init_mf))) of
        Inl e \<Rightarrow> Inl e
      | Inr dens_a \<Rightarrow>
     (case sub_arrays dens_ab dens_a of
        Inl e \<Rightarrow> Inl e
      | Inr dens_b \<Rightarrow>
     (let f_ab = get_fock init_mf; v_a = get_veff init_mf dens_a in
      case embedding_potential f_ab v_a (get_ovlp init_mf) dens_b mu_val of
        Inl e \<Rightarrow> Inl e
      | Inr hcore_a_in_b \<Rightarrow>
          Inr \<lparr>st_mol = (mf_mol init_mf)
                  \<lparr>nelectron := py_int (sum_list (take (ncols c_occ_a) (mo_occ init_mf)))\<rparr>,
               st_dens_ab = dens_ab, st_dens_a = dens_a, st_dens_b = dens_b, st_v_a = v_a,
               st_hcore_a_in_b = hcore_a_in_b,
               st_energy_a = energy_elec init_mf dens_a v_a hcore_a_in_b\<rparr>))))))"

subsection \<open>AO truncation (lines 177 to 214)\<close>

text \<open>The solver built for the truncated molecule, of the family of \<^verbatim>\<open>init_mf\<close>.\<close>

definition truncated_solver :: "mean_field \<Rightarrow> mol \<Rightarrow> mat \<Rightarrow> solver" where
  "truncated_solver init_mf m hcore =
     \<lparr>s_mol = m,
      s_family = (case xc init_mf of Some x \<Rightarrow> RKS (Some x) | None \<Rightarrow> RHF),
      s_auxbasis = with_df init_mf,
      s_hcore = hcore\<rparr>"

text \<open>
  \<^verbatim>\<open>if trunc_lambda:\<close> is taken when a threshold is given and is not zero. The printing
  is not part of the state.
\<close>

definition truncation ::
  "externals \<Rightarrow> mean_field \<Rightarrow> int list option \<Rightarrow> real option \<Rightarrow> embed_state
     \<Rightarrow> error + embed_state" where
  "truncation ex init_mf active_atoms trunc_lambda st =
     (case trunc_lambda of
        None \<Rightarrow> Inr st
      | Some lam \<Rightarrow>
          if lam = 0 then Inr st
          else
            (let mol1 = mol_build ex (st_mol st) (flatten_basis ex (st_mol st));
                 scr = screen_aos ex mol1 active_atoms (st_dens_a st) (get_ovlp init_mf) lam;
                 active_aos = fst scr;
                 include = snd scr
             in if length active_aos \<noteq> nao mol1
                then
                  (let mol2 = mol_build ex mol1 (truncate_basis ex mol1 include) in
                   case mesh_select (st_hcore_a_in_b st) active_aos of
                     Inl e \<Rightarrow> Inl e
                   | Inr hcore_a_in_b \<Rightarrow>
                  (case mesh_select (st_dens_a st) active_aos of
                     Inl e \<Rightarrow> Inl e
                   | Inr d_mesh \<Rightarrow>
                  (case mesh_select (get_ovlp init_mf) active_aos of
                     Inl e \<Rightarrow> Inl e
                   | Inr s_mesh \<Rightarrow>
                  (let pure_d_a = mat_scale 2 (purify ex (mat_scale (1/2) d_mesh) s_mesh);
                       tinit_mf = truncated_solver init_mf mol2 hcore_a_in_b;
                       dens_a = scf_make_rdm1 ex tinit_mf pure_d_a;
                       v_a = scf_get_veff ex tinit_mf pure_d_a dens_a
                   in Inr (st\<lparr>st_mol := mol2, st_hcore_a_in_b := hcore_a_in_b,
                              st_dens_a := dens_a, st_v_a := v_a,
                              st_energy_a :=
                                scf_energy_elec ex tinit_mf pure_d_a dens_a v_a hcore_a_in_b\<rparr>)))))
                else Inr (st\<lparr>st_mol := mol1\<rparr>)))"

subsection \<open>The embedded solve and the result tuple (lines 216 to 250)\<close>

definition embedded_solver :: "mean_field \<Rightarrow> string \<Rightarrow> embed_state \<Rightarrow> solver" where
  "embedded_solver init_mf embed_meth st =
     \<lparr>s_mol = st_mol st,
      s_family = (if lower embed_meth \<in> set [''rhf'', ''mp2'', ''ccsd'', ''ccsd(t)'']
                  then RHF else RKS (Some embed_meth)),
      s_auxbasis = with_df init_mf,
      s_hcore = st_hcore_a_in_b st\<rparr>"

text \<open>\<^verbatim>\<open>embed_meth.lower()\<close> on \<^verbatim>\<open>None\<close> raises AttributeError.\<close>

definition embedded_solve ::
  "externals \<Rightarrow> mean_field \<Rightarrow> string option \<Rightarrow> embed_state \<Rightarrow> error + real list" where
  "embedded_solve ex init_mf embed_meth st =
     (case embed_meth of
        None \<Rightarrow> Inl AttributeError
      | Some meth \<Rightarrow>
          (let mf_embed = embedded_solver init_mf meth st;
               dm0 = st_dens_a st;
               tot_energy_a_in_b = scf_kernel ex mf_embed dm0;
               energy_a_in_b = tot_energy_a_in_b - scf_energy_nuc ex mf_embed;
               results = [e_tot init_mf - st_energy_a st + energy_a_in_b]
           in if lower meth = ''mp2'' then Inr (results @ [mp2_e_corr ex mf_embed dm0])
              else if lower meth \<in> set [''ccsd'', ''ccsd(t)'']
              then
                (let r2 = results @ [ccsd_emp2 ex mf_embed dm0];
                     r3 = r2 @ [ccsd_e_corr ex mf_embed dm0 - ccsd_emp2 ex mf_embed dm0]
                 in if lower meth = ''ccsd(t)'' then Inr (r3 @ [ccsd_t ex mf_embed dm0])
                    else Inr r3)
              else Inr results))"

definition embedding_procedure ::
  "externals \<Rightarrow> mean_field \<Rightarrow> int list option \<Rightarrow> string option \<Rightarrow> real option \<Rightarrow> real option
     \<Rightarrow> (mean_field \<Rightarrow> int list option \<Rightarrow> mat option \<Rightarrow> error + (mat \<times> mat))
     \<Rightarrow> error + real list" where
  "embedding_procedure ex init_mf active_atoms embed_meth mu_val trunc_lambda distribute_mos =
     (case build_embedding distribute_mos init_mf active_atoms mu_val of
        Inl e \<Rightarrow> Inl e
      | Inr st \<Rightarrow>
          (case truncation ex init_mf active_atoms trunc_lambda st of
             Inl e \<Rightarrow> Inl e
           | Inr st' \<Rightarrow> embedded_solve ex init_mf embed_meth st'))"

section \<open>A two-atom toy system\<close>

text \<open>
  Two atoms with one AO each, two doubly occupied orbitals, an orthonormal AO basis. The
  toy externals are simple closed forms; they only serve to run the procedure.
\<close>

definition ex_id2 :: mat where
  "ex_id2 = mk_mat 2 2 (\<lambda>i j. if i = j then 1 else 0)"

definition ex_rot :: mat where
  "ex_rot = \<lparr>nrows = 2, ncols = 2, rws = [[3/5, - (4/5)], [4/5, 3/5]]\<rparr>"

definition ex_pm :: "mol \<Rightarrow> mat \<Rightarrow> mat" where
  "ex_pm m C = mat_mul C ex_rot"

definition ex_mol :: mol where
  "ex_mol = \<lparr>ao_offsets = [(0, 1), (1, 2)], basis = [[2], [1]], nelectron = 4, nao = 2\<rparr>"

definition ex_mf :: mean_field where
  "ex_mf = \<lparr>mf_mol = ex_mol, mo_coeff = ex_id2, mo_occ = [2, 2], get_ovlp = ex_id2,
     get_fock = mk_mat 2 2 (\<lambda>i j. if i = j then - 1 else 0),
     get_veff = (\<lambda>D. mat_scale (1/4) D),
     energy_elec = (\<lambda>dm vhf h1e. frobenius dm h1e + frobenius dm vhf / 2),
     e_tot = - 3, xc = None, with_df = None\<rparr>"

definition ex_externals :: externals where
  "ex_externals = \<lparr>
     mol_build = (\<lambda>m b. m\<lparr>basis := b\<rparr>),
     flatten_basis = (\<lambda>m. map (map (\<lambda>k. 1)) (basis m)),
     screen_aos = (\<lambda>m atoms d s lam. ([0..<nao m], replicate (nao m) True)),
     truncate_basis = (\<lambda>m inc. basis m),
     purify = (\<lambda>d s. d),
     scf_kernel = (\<lambda>sv dm0. frobenius dm0 (s_hcore sv) + 1),
     scf_make_rdm1 = (\<lambda>sv dm0. dm0),
     scf_get_veff = (\<lambda>sv dm0 dm. mat_scale (1/4) dm),
     scf_energy_elec = (\<lambda>sv dm0 dm vhf h1e. frobenius dm h1e + frobenius dm vhf / 2),
     scf_energy_nuc = (\<lambda>sv. 1),
     mp2_e_corr = (\<lambda>sv dm0. - (1/10)),
     ccsd_emp2 = (\<lambda>sv dm0. - (1/10)),
     ccsd_e_corr = (\<lambda>sv dm0. - (1/8)),
     ccsd_t = (\<lambda>sv dm0. - (1/100))\<rparr>"

text \<open>
  The state that \<open>build_embedding\<close> reaches on the toy system with atom 0 active, the
  population partitioner at 0.4 without localisation, and \<open>mu_val = 10^6\<close>.
\<close>

definition ex_state :: embed_state where
  "ex_state = \<lparr>
     st_mol = \<lparr>ao_offsets = [(0, 1), (1, 2)], basis = [[2], [1]], nelectron = 2, nao = 2\<rparr>,
     st_dens_ab = \<lparr>nrows = 2, ncols = 2, rws = [[2, 0], [0, 2]]\<rparr>,
     st_dens_a = \<lparr>nrows = 2, ncols = 2, rws = [[2, 0], [0, 0]]\<rparr>,
     st_dens_b = \<lparr>nrows = 2, ncols = 2, rws = [[0, 0], [0, 2]]\<rparr>,
     st_v_a = \<lparr>nrows = 2, ncols = 2, rws = [[1/2, 0], [0, 0]]\<rparr>,
     st_hcore_a_in_b = \<lparr>nrows = 2, ncols = 2, rws = [[- (3/2), 0], [0, 1999999]]\<rparr>,
     st_energy_a = - (5/2)\<rparr>"

text \<open>
  Toy numerics for \<^verbatim>\<open>spade_partition\<close>: the square root of the identity overlap, the
  decomposition of a matrix that is already diagonal with a decreasing non-negative
  diagonal, and the first index of a greatest element.
\<close>

definition ex_sqrtm :: "mat \<Rightarrow> mat" where
  "ex_sqrtm S = S"

definition ex_svd :: "mat \<Rightarrow> real list \<times> mat" where
  "ex_svd X =
     (map (\<lambda>i. ent X i i) [0..<min (nrows X) (ncols X)],
      mk_mat (ncols X) (ncols X) (\<lambda>i j. if i = j then 1 else 0))"

definition ex_argmax :: "real list \<Rightarrow> nat" where
  "ex_argmax ds = hd (filter (\<lambda>i. list_all (\<lambda>d. d \<le> ds ! i) ds) [0..<length ds])"

text \<open>
  Three atoms with one AO each and three occupied orbitals of decreasing weight on the
  first two atoms.
\<close>

definition ex_mol3 :: mol where
  "ex_mol3 =
     \<lparr>ao_offsets = [(0, 1), (1, 2), (2, 3)], basis = [[1], [1], [1]], nelectron = 6, nao = 3\<rparr>"

definition ex_c3 :: mat where
  "ex_c3 = \<lparr>nrows = 3, ncols = 3, rws = [[1, 0, 0], [0, 3/4, 0], [0, 0, 1/2]]\<rparr>"

definition ex_mf3 :: mean_field where
  "ex_mf3 = \<lparr>mf_mol = ex_mol3, mo_coeff = ex_c3, mo_occ = [2, 2, 2],
     get_ovlp = mk_mat 3 3 (\<lambda>i j. if i = j then 1 else 0),
     get_fock = mk_mat 3 3 (\<lambda>i j. if i = j then - 1 else 0),
     get_veff = (\<lambda>D. mat_scale (1/4) D),
     energy_elec = (\<lambda>dm vhf h1e. frobenius dm h1e + frobenius dm vhf / 2),
     e_tot = - 5, xc = None, with_df = None\<rparr>"

text \<open>
  A mean field on the three atoms whose occupied orbitals are the first and the third:
  the second orbital is empty. \<open>ex_c_gap\<close> holds its two occupied columns.
\<close>

definition ex_mf_gap :: mean_field where
  "ex_mf_gap = \<lparr>mf_mol = ex_mol3,
     mo_coeff = \<lparr>nrows = 3, ncols = 3, rws = [[1, 0, 0], [0, 1, 0], [0, 0, 1/2]]\<rparr>,
     mo_occ = [2, 0, 2],
     get_ovlp = mk_mat 3 3 (\<lambda>i j. if i = j then 1 else 0),
     get_fock = mk_mat 3 3 (\<lambda>i j. if i = j then - 1 else 0),
     get_veff = (\<lambda>D. mat_scale (1/4) D),
     energy_elec = (\<lambda>dm vhf h1e. frobenius dm h1e + frobenius dm vhf / 2),
     e_tot = - 5, xc = None, with_df = None\<rparr>"

definition ex_c_gap :: mat where
  "ex_c_gap = \<lparr>nrows = 3, ncols = 2, rws = [[1, 0], [0, 0], [0, 1/2]]\<rparr>"

text \<open>The toy externals with a screening that selects a single AO beyond the basis.\<close>

definition ex_externals_far :: externals where
  "ex_externals_far = ex_externals\<lparr>screen_aos := (\<lambda>m atoms d s lam. ([7], []))\<rparr>"

text \<open>The molecule of \<open>ex_state\<close> after the toy flattening of its basis.\<close>

definition ex_mol_flat :: mol where
  "ex_mol_flat =
     \<lparr>ao_offsets = [(0, 1), (1, 2)], basis = [[1], [1]], nelectron = 2, nao = 2\<rparr>"

text \<open>What the partitioners return on the three-atom system with atoms 0 and 1 active.\<close>

definition ex_act3 :: mat where
  "ex_act3 = \<lparr>nrows = 3, ncols = 2, rws = [[1, 0], [0, 3/4], [0, 0]]\<rparr>"

definition ex_frz3 :: mat where
  "ex_frz3 = \<lparr>nrows = 3, ncols = 1, rws = [[0], [0], [1/2]]\<rparr>"

definition ex_orth3 :: mat where
  "ex_orth3 = \<lparr>nrows = 2, ncols = 3, rws = [[1, 0, 0], [0, 3/4, 0]]\<rparr>"

section \<open>Basic facts about matrices\<close>

lemma nrows_mk_mat [simp]: "nrows (mk_mat r c f) = r"
  by (simp add: mk_mat_def)

lemma ncols_mk_mat [simp]: "ncols (mk_mat r c f) = c"
  by (simp add: mk_mat_def)

lemma ncols_select_cols [simp]: "ncols (select_cols A idx) = length idx"
  by (simp add: select_cols_def)

lemma nrows_select_cols [simp]: "nrows (select_cols A idx) = nrows A"
  by (simp add: select_cols_def)

lemma ent_mk_mat [simp]: "i < r \<Longrightarrow> j < c \<Longrightarrow> ent (mk_mat r c f) i j = f i j"
  by (simp add: mk_mat_def ent_def)

lemma wf_mk_mat [simp]: "wf_mat (mk_mat r c f)"
  by (simp add: mk_mat_def wf_mat_def list_all_iff)

lemma mk_mat_cong: "(\<And>i j. i < r \<Longrightarrow> j < c \<Longrightarrow> f i j = g i j) \<Longrightarrow> mk_mat r c f = mk_mat r c g"
  by (simp add: mk_mat_def)

lemma mk_mat_ent: "wf_mat A \<Longrightarrow> mk_mat (nrows A) (ncols A) (ent A) = A"
proof -
  assume wf: "wf_mat A"
  have "map (\<lambda>i. map (ent A i) [0..<ncols A]) [0..<nrows A] = rws A"
  proof (rule nth_equalityI)
    show "length (map (\<lambda>i. map (ent A i) [0..<ncols A]) [0..<nrows A]) = length (rws A)"
      using wf by (simp add: wf_mat_def)
  next
    fix i assume "i < length (map (\<lambda>i. map (ent A i) [0..<ncols A]) [0..<nrows A])"
    then have i: "i < nrows A" by simp
    then have len: "length (rws A ! i) = ncols A"
      using wf by (simp add: wf_mat_def list_all_length)
    have "map (ent A i) [0..<ncols A] = rws A ! i"
      by (rule nth_equalityI) (simp_all add: len ent_def)
    then show "map (\<lambda>i. map (ent A i) [0..<ncols A]) [0..<nrows A] ! i = rws A ! i"
      using i by simp
  qed
  then show ?thesis by (simp add: mk_mat_def)
qed

section \<open>The toy system runs\<close>

lemma ex_build:
  "build_embedding (mulliken_partition ex_pm (2/5) False) ex_mf (Some [0]) (Some 1000000)
     = Inr ex_state"
  by code_simp

lemma ex_run_mp2:
  "embedding_procedure ex_externals ex_mf (Some [0]) (Some ''MP2'') (Some 1000000) None
       (mulliken_partition ex_pm (2/5) False) = Inr [- 7/2, - (1/10)]"
  by code_simp

section \<open>Sentinel values of \<open>active_atoms\<close>\<close>

text \<open>
  Claim C5. For the closures returned by \<^verbatim>\<open>mulliken_partition\<close> and
  \<^verbatim>\<open>occupancy_partition\<close>, whatever the threshold, the localisation flag and the
  mean-field input: with \<^verbatim>\<open>active_atoms=None\<close> the call returns every column of the
  occupied coefficient matrix as active and a frozen matrix with zero columns; with
  \<^verbatim>\<open>active_atoms=[]\<close> it returns an active matrix with zero columns and every column
  as frozen. The occupied coefficient matrix is the one the closure holds at that point:
  the argument (or the occupied columns of the mean field when the argument is absent),
  passed through the localisation when the flag is set.
\<close>

theorem sentinel_active_atoms:
  assumes "given_or_occupied pyscf_mf c_occ_arg = Inr c_in"
  shows "mulliken_partition pm thr localize pyscf_mf None c_occ_arg
           = Inr (localized pm localize (mf_mol pyscf_mf) c_in,
                  select_cols (localized pm localize (mf_mol pyscf_mf) c_in) [])
       \<and> occupancy_partition pm thr localize pyscf_mf None c_occ_arg
           = Inr (localized pm localize (mf_mol pyscf_mf) c_in,
                  select_cols (localized pm localize (mf_mol pyscf_mf) c_in) [])
       \<and> mulliken_partition pm thr localize pyscf_mf (Some []) c_occ_arg
           = Inr (select_cols (localized pm localize (mf_mol pyscf_mf) c_in) [],
                  localized pm localize (mf_mol pyscf_mf) c_in)
       \<and> occupancy_partition pm thr localize pyscf_mf (Some []) c_occ_arg
           = Inr (select_cols (localized pm localize (mf_mol pyscf_mf) c_in) [],
                  localized pm localize (mf_mol pyscf_mf) c_in)
       \<and> ncols (select_cols (localized pm localize (mf_mol pyscf_mf) c_in) []) = 0"
  using assms by (simp add: mulliken_partition_def occupancy_partition_def Let_def)

theorem sentinel_active_atoms_witness:
  "given_or_occupied ex_mf (Some ex_id2) = Inr ex_id2
   \<and> mulliken_partition ex_pm (2/5) True ex_mf None (Some ex_id2)
       = Inr (ex_rot, \<lparr>nrows = 2, ncols = 0, rws = [[], []]\<rparr>)
   \<and> occupancy_partition ex_pm (2/5) True ex_mf None (Some ex_id2)
       = Inr (ex_rot, \<lparr>nrows = 2, ncols = 0, rws = [[], []]\<rparr>)
   \<and> mulliken_partition ex_pm (2/5) True ex_mf (Some []) (Some ex_id2)
       = Inr (\<lparr>nrows = 2, ncols = 0, rws = [[], []]\<rparr>, ex_rot)
   \<and> occupancy_partition ex_pm (2/5) True ex_mf (Some []) (Some ex_id2)
       = Inr (\<lparr>nrows = 2, ncols = 0, rws = [[], []]\<rparr>, ex_rot)"
proof -
  have h: "given_or_occupied ex_mf (Some ex_id2) = Inr ex_id2"
    by (simp add: given_or_occupied_def)
  have l: "localized ex_pm True (mf_mol ex_mf) ex_id2 = ex_rot"
    by code_simp
  have e: "select_cols ex_rot [] = \<lparr>nrows = 2, ncols = 0, rws = [[], []]\<rparr>"
    by code_simp
  from sentinel_active_atoms [OF h, of ex_pm "2/5" True] h show ?thesis
    unfolding l e by blast
qed

section \<open>The embedding Hamiltonian\<close>



section \<open>The recombined total energy\<close>

text \<open>
  Claim C2. Every call of \<^verbatim>\<open>embedding_procedure\<close> that returns a tuple has a method
  name, and the first element of the tuple is
  \<open>e_tot - energy_a + energy_a_in_b\<close>: \<open>energy_a_in_b\<close> is the total energy that the
  embedded solver's \<^verbatim>\<open>kernel\<close> returns minus that solver's nuclear repulsion energy, and
  \<open>energy_a\<close> is the electronic energy of the active density, with its effective
  potential, under the embedding Hamiltonian, as these stand before the embedded solve
  (computed by \<^verbatim>\<open>init_mf\<close>, or by the truncated solver when the truncation stage has
  replaced them).
\<close>

lemma build_embedding_energy:
  assumes "build_embedding distribute_mos init_mf active_atoms mu_val = Inr st"
  shows "st_energy_a st = energy_elec init_mf (st_dens_a st) (st_v_a st) (st_hcore_a_in_b st)"
  using assms
  by (auto simp: build_embedding_def Let_def split: sum.splits prod.splits)

lemma truncation_energy:
  assumes "truncation ex init_mf active_atoms trunc_lambda st = Inr st'"
    and "st_energy_a st = energy_elec init_mf (st_dens_a st) (st_v_a st) (st_hcore_a_in_b st)"
  shows "st_energy_a st' = energy_elec init_mf (st_dens_a st') (st_v_a st') (st_hcore_a_in_b st')
       \<or> (\<exists>tinit_mf dm0. st_energy_a st' =
             scf_energy_elec ex tinit_mf dm0 (st_dens_a st') (st_v_a st') (st_hcore_a_in_b st'))"
proof (cases "st' = st \<or> (\<exists>m. st' = st\<lparr>st_mol := m\<rparr>)")
  case True
  then show ?thesis using assms(2) by auto
next
  case False
  with assms(1) obtain tinit_mf dm0 where
    "st_energy_a st' =
       scf_energy_elec ex tinit_mf dm0 (st_dens_a st') (st_v_a st') (st_hcore_a_in_b st')"
    by (auto simp: truncation_def Let_def split: option.splits if_splits sum.splits)
  then show ?thesis by blast
qed

theorem total_energy_recombination:
  assumes "embedding_procedure ex init_mf active_atoms embed_meth mu_val trunc_lambda distribute_mos
             = Inr results"
  shows "\<exists>st0 st meth.
           build_embedding distribute_mos init_mf active_atoms mu_val = Inr st0
         \<and> truncation ex init_mf active_atoms trunc_lambda st0 = Inr st
         \<and> embed_meth = Some meth
         \<and> results \<noteq> []
         \<and> hd results =
             e_tot init_mf - st_energy_a st
               + (scf_kernel ex (embedded_solver init_mf meth st) (st_dens_a st)
                    - scf_energy_nuc ex (embedded_solver init_mf meth st))
         \<and> (st_energy_a st =
               energy_elec init_mf (st_dens_a st) (st_v_a st) (st_hcore_a_in_b st)
             \<or> (\<exists>tinit_mf dm0. st_energy_a st =
                   scf_energy_elec ex tinit_mf dm0 (st_dens_a st) (st_v_a st)
                     (st_hcore_a_in_b st)))"
proof -
  from assms obtain st0 st where
    b: "build_embedding distribute_mos init_mf active_atoms mu_val = Inr st0" and
    t: "truncation ex init_mf active_atoms trunc_lambda st0 = Inr st" and
    s: "embedded_solve ex init_mf embed_meth st = Inr results"
    by (auto simp: embedding_procedure_def split: sum.splits)
  from s obtain meth where m: "embed_meth = Some meth"
    by (cases embed_meth) (auto simp: embedded_solve_def)
  from s m have r: "results \<noteq> [] \<and> hd results =
             e_tot init_mf - st_energy_a st
               + (scf_kernel ex (embedded_solver init_mf meth st) (st_dens_a st)
                    - scf_energy_nuc ex (embedded_solver init_mf meth st))"
    by (auto simp: embedded_solve_def Let_def split: if_splits)
  from truncation_energy[OF t build_embedding_energy[OF b]] b t m r
  show ?thesis by blast
qed

theorem total_energy_recombination_witness:
  "embedding_procedure ex_externals ex_mf (Some [0]) (Some ''MP2'') (Some 1000000) None
       (mulliken_partition ex_pm (2/5) False) = Inr [- 7/2, - (1/10)]
   \<and> hd [- 7/2, - (1/10) :: real] =
       e_tot ex_mf - st_energy_a ex_state
         + (scf_kernel ex_externals (embedded_solver ex_mf ''MP2'' ex_state) (st_dens_a ex_state)
              - scf_energy_nuc ex_externals (embedded_solver ex_mf ''MP2'' ex_state))"
proof -
  have t: "truncation ex_externals ex_mf (Some [0]) None ex_state = Inr ex_state"
    by (simp add: truncation_def)
  from total_energy_recombination [OF ex_run_mp2] ex_build t
  show ?thesis using ex_run_mp2 by auto
qed

section \<open>Truncation when every AO is selected\<close>

text \<open>
  Claim C9, as amended. When a non-zero truncation threshold is supplied and the
  screening selects as many AOs as the rebuilt molecule has, the truncation stage leaves
  the embedding Hamiltonian, the active density, the active effective potential and the
  active electronic energy as they were; the molecule carried into the embedded solve is
  the copy rebuilt with the flattened basis, \<^verbatim>\<open>mol.build(basis=flatten_basis(mol))\<close>,
  which the stage builds before it screens.
\<close>

theorem truncation_all_aos_selected:
  assumes "trunc_lambda = Some lam" and "lam \<noteq> 0"
    and "mol1 = mol_build ex (st_mol st) (flatten_basis ex (st_mol st))"
    and "length (fst (screen_aos ex mol1 active_atoms (st_dens_a st) (get_ovlp init_mf) lam))
           = nao mol1"
  shows "truncation ex init_mf active_atoms trunc_lambda st = Inr (st\<lparr>st_mol := mol1\<rparr>)"
  using assms by (simp add: truncation_def Let_def)

theorem truncation_all_aos_selected_witness:
  "(1/10 :: real) \<noteq> 0
   \<and> length (fst (screen_aos ex_externals ex_mol_flat (Some [0]) (st_dens_a ex_state)
                (get_ovlp ex_mf) (1/10))) = nao ex_mol_flat
   \<and> truncation ex_externals ex_mf (Some [0]) (Some (1/10)) ex_state
       = Inr (ex_state\<lparr>st_mol := ex_mol_flat\<rparr>)"
proof -
  have m: "ex_mol_flat =
      mol_build ex_externals (st_mol ex_state) (flatten_basis ex_externals (st_mol ex_state))"
    by (simp add: ex_mol_flat_def ex_externals_def ex_state_def)
  have n: "length (fst (screen_aos ex_externals ex_mol_flat (Some [0]) (st_dens_a ex_state)
                (get_ovlp ex_mf) (1/10))) = nao ex_mol_flat"
    by (simp add: ex_externals_def)
  have z: "(1/10 :: real) \<noteq> 0" by simp
  from truncation_all_aos_selected [OF refl z m n] z n show ?thesis by blast
qed

text \<open>
  The claim as the spec states it, that the stage is then a no-op, fails on the
  molecule: on the toy system every AO is selected and the state that leaves the stage
  differs from the one that entered it.
\<close>

theorem truncation_noop_counterexample:
  "length (fst (screen_aos ex_externals ex_mol_flat (Some [0]) (st_dens_a ex_state)
                (get_ovlp ex_mf) (1/10))) = nao ex_mol_flat
   \<and> truncation ex_externals ex_mf (Some [0]) (Some (1/10)) ex_state
       = Inr (ex_state\<lparr>st_mol := ex_mol_flat\<rparr>)
   \<and> basis (st_mol (ex_state\<lparr>st_mol := ex_mol_flat\<rparr>)) \<noteq> basis (st_mol ex_state)"
  by (simp add: truncation_def Let_def ex_externals_def ex_state_def ex_mol_flat_def)

section \<open>A missing method name\<close>

text \<open>
  Claim C10. A call of \<^verbatim>\<open>embedding_procedure\<close> that leaves \<^verbatim>\<open>embed_meth\<close> as \<open>None\<close>
  never returns a result tuple, and nothing rejects it before the method dispatch: the
  partitioning, the densities, the embedding Hamiltonian and the truncation stage run
  as for any other call. A failure of one of these stages is the failure of the call;
  when they all go through, the call fails at the dispatch (\<open>None\<close> has no \<^verbatim>\<open>lower\<close>:
  AttributeError). A failure of the call other than that AttributeError is the failure
  of the same call with any method name.
\<close>

theorem missing_method_fails_at_dispatch:
  "(\<exists>e. embedding_procedure ex init_mf active_atoms None mu_val trunc_lambda distribute_mos = Inl e)
   \<and> (\<forall>e. build_embedding distribute_mos init_mf active_atoms mu_val = Inl e
         \<longrightarrow> embedding_procedure ex init_mf active_atoms None mu_val trunc_lambda distribute_mos
               = Inl e)
   \<and> (\<forall>st e. build_embedding distribute_mos init_mf active_atoms mu_val = Inr st
         \<longrightarrow> truncation ex init_mf active_atoms trunc_lambda st = Inl e
         \<longrightarrow> embedding_procedure ex init_mf active_atoms None mu_val trunc_lambda distribute_mos
               = Inl e)
   \<and> (\<forall>st st'. build_embedding distribute_mos init_mf active_atoms mu_val = Inr st
         \<longrightarrow> truncation ex init_mf active_atoms trunc_lambda st = Inr st'
         \<longrightarrow> embedding_procedure ex init_mf active_atoms None mu_val trunc_lambda distribute_mos
               = Inl AttributeError)
   \<and> (\<forall>e meth. embedding_procedure ex init_mf active_atoms None mu_val trunc_lambda distribute_mos
                 = Inl e \<longrightarrow> e \<noteq> AttributeError
         \<longrightarrow> embedding_procedure ex init_mf active_atoms (Some meth) mu_val trunc_lambda
               distribute_mos = Inl e)"
  by (auto simp: embedding_procedure_def embedded_solve_def split: sum.splits)

theorem missing_method_fails_at_dispatch_witness:
  "build_embedding (mulliken_partition ex_pm (2/5) False) ex_mf (Some [0]) (Some 1000000)
     = Inr ex_state
   \<and> truncation ex_externals ex_mf (Some [0]) None ex_state = Inr ex_state
   \<and> embedding_procedure ex_externals ex_mf (Some [0]) None (Some 1000000) None
       (mulliken_partition ex_pm (2/5) False) = Inl AttributeError
   \<and> build_embedding (mulliken_partition ex_pm (2/5) False) ex_mf (Some [5]) (Some 1000000)
       = Inl IndexError
   \<and> embedding_procedure ex_externals ex_mf (Some [5]) None (Some 1000000) None
       (mulliken_partition ex_pm (2/5) False) = Inl IndexError
   \<and> truncation ex_externals_far ex_mf (Some [0]) (Some (1/10)) ex_state = Inl IndexError
   \<and> embedding_procedure ex_externals_far ex_mf (Some [0]) None (Some 1000000) (Some (1/10))
       (mulliken_partition ex_pm (2/5) False) = Inl IndexError"
proof -
  have t: "truncation ex_externals ex_mf (Some [0]) None ex_state = Inr ex_state"
    by (simp add: truncation_def)
  have b5: "build_embedding (mulliken_partition ex_pm (2/5) False) ex_mf (Some [5])
              (Some 1000000) = Inl IndexError"
    by code_simp
  have tf: "truncation ex_externals_far ex_mf (Some [0]) (Some (1/10)) ex_state = Inl IndexError"
    by code_simp
  from missing_method_fails_at_dispatch
    [of ex_externals ex_mf "Some [0]" "Some 1000000" None "mulliken_partition ex_pm (2/5) False"]
  have r1: "embedding_procedure ex_externals ex_mf (Some [0]) None (Some 1000000) None
       (mulliken_partition ex_pm (2/5) False) = Inl AttributeError"
    using ex_build t by blast
  from missing_method_fails_at_dispatch
    [of ex_externals ex_mf "Some [5]" "Some 1000000" None "mulliken_partition ex_pm (2/5) False"]
  have r2: "embedding_procedure ex_externals ex_mf (Some [5]) None (Some 1000000) None
       (mulliken_partition ex_pm (2/5) False) = Inl IndexError"
    using b5 by blast
  from missing_method_fails_at_dispatch
    [of ex_externals_far ex_mf "Some [0]" "Some 1000000" "Some (1/10)"
       "mulliken_partition ex_pm (2/5) False"]
  have r3: "embedding_procedure ex_externals_far ex_mf (Some [0]) None (Some 1000000)
       (Some (1/10)) (mulliken_partition ex_pm (2/5) False) = Inl IndexError"
    using ex_build tf by blast
  from ex_build t b5 tf r1 r2 r3 show ?thesis by blast
qed

section \<open>Columns and products\<close>

lemma ent_select_cols:
  "i < nrows A \<Longrightarrow> k < length idx \<Longrightarrow> ent (select_cols A idx) i k = ent A i (idx ! k)"
  by (simp add: select_cols_def)

lemma length_columns [simp]: "length (columns A) = ncols A"
  by (simp add: columns_def)

lemma columns_column: "columns A = map (column A) [0..<ncols A]"
  by (simp add: columns_def column_def)

lemma columns_select_cols: "columns (select_cols A idx) = map (column A) idx"
proof (rule nth_equalityI)
  show "length (columns (select_cols A idx)) = length (map (column A) idx)" by simp
next
  fix k assume "k < length (columns (select_cols A idx))"
  then have k: "k < length idx" by simp
  then show "columns (select_cols A idx) ! k = map (column A) idx ! k"
    by (simp add: columns_def column_def ent_select_cols)
qed

lemma columns_no_cols [simp]: "columns (select_cols A []) = []"
  by (simp add: columns_select_cols)

section \<open>The loops of the threshold partitioners\<close>

lemma atom_loop_decides:
  assumes "atom_loop (ao_offsets (mf_mol mf))
             (density (select_cols c_occ [i]) (\<lambda>k. mo_occ mf ! i)) (get_ovlp mf) thr atoms = Inr b"
  shows "b = exceeds_on_some_atom mf c_occ thr atoms i"
  using assms
proof (induction atoms)
  case Nil
  then show ?case by (simp add: exceeds_on_some_atom_def)
next
  case (Cons a atoms)
  from Cons.prems obtain oe q where
    oe: "atom_aos (ao_offsets (mf_mol mf)) a = Inr oe" and
    q: "q_atom_mo (density (select_cols c_occ [i]) (\<lambda>k. mo_occ mf ! i)) (get_ovlp mf) oe = Inr q"
    by (auto split: sum.splits)
  show ?case
  proof (cases "q > thr")
    case True
    with Cons.prems oe q have "b" by simp
    moreover from True oe q have "exceeds_on_some_atom mf c_occ thr (a # atoms) i"
      by (simp add: exceeds_on_some_atom_def)
    ultimately show ?thesis by simp
  next
    case False
    with Cons.prems oe q have "atom_loop (ao_offsets (mf_mol mf))
             (density (select_cols c_occ [i]) (\<lambda>k. mo_occ mf ! i)) (get_ovlp mf) thr atoms = Inr b"
      by simp
    then have "b = exceeds_on_some_atom mf c_occ thr atoms i" by (rule Cons.IH)
    with False oe q show ?thesis by (simp add: exceeds_on_some_atom_def)
  qed
qed

lemma mo_is_active_decides:
  assumes "mo_is_active mf c_occ thr atoms i = Inr b"
  shows "b = exceeds_on_some_atom mf c_occ thr atoms i"
proof -
  from assms have "atom_loop (ao_offsets (mf_mol mf))
             (density (select_cols c_occ [i]) (\<lambda>k. mo_occ mf ! i)) (get_ovlp mf) thr atoms = Inr b"
    by (simp add: mo_is_active_def make_dm_def split: if_splits)
  then show ?thesis by (rule atom_loop_decides)
qed

lemma mo_loop_filter:
  assumes "mo_loop mf c_occ thr atoms idxs acc = Inr r"
  shows "r = acc @ filter (exceeds_on_some_atom mf c_occ thr atoms) idxs"
  using assms
proof (induction idxs arbitrary: acc)
  case Nil
  then show ?case by simp
next
  case (Cons i idxs)
  from Cons.prems obtain b where
    b: "mo_is_active mf c_occ thr atoms i = Inr b" and
    rest: "mo_loop mf c_occ thr atoms idxs (if b then acc @ [i] else acc) = Inr r"
    by (auto split: sum.splits)
  from mo_is_active_decides [OF b] Cons.IH [OF rest] show ?case by simp
qed

lemma frozen_filter:
  "filter (\<lambda>i. i \<notin> set (filter P xs)) xs = filter (\<lambda>i. \<not> P i) xs"
  by (rule filter_cong) auto

lemma mulliken_partition_filter:
  assumes "given_or_occupied pyscf_mf c_occ_arg = Inr c_in"
    and "c_occ = localized pm localize (mf_mol pyscf_mf) c_in"
    and "atoms \<noteq> []"
    and "mulliken_partition pm thr localize pyscf_mf (Some atoms) c_occ_arg = Inr (c_a, c_b)"
  shows "c_a = select_cols c_occ
                 (filter (exceeds_on_some_atom pyscf_mf c_occ thr atoms) [0..<ncols c_occ])
       \<and> c_b = select_cols c_occ
                 (filter (\<lambda>i. \<not> exceeds_on_some_atom pyscf_mf c_occ thr atoms i)
                    [0..<ncols c_occ])"
proof -
  from assms(3) obtain a as where atoms: "atoms = a # as" by (cases atoms) auto
  from assms(1,2,4) atoms obtain active_mos where
    loop: "mo_loop pyscf_mf c_occ thr atoms [0..<ncols c_occ] [] = Inr active_mos" and
    ca: "c_a = select_cols c_occ active_mos" and
    cb: "c_b = select_cols c_occ (filter (\<lambda>i. i \<notin> set active_mos) [0..<ncols c_occ])"
    by (auto simp: mulliken_partition_def Let_def split: sum.splits if_splits)
  from mo_loop_filter [OF loop] have am:
    "active_mos = filter (exceeds_on_some_atom pyscf_mf c_occ thr atoms) [0..<ncols c_occ]"
    by simp
  have "filter (\<lambda>i. i \<notin> set active_mos) [0..<ncols c_occ]
      = filter (\<lambda>i. \<not> exceeds_on_some_atom pyscf_mf c_occ thr atoms i) [0..<ncols c_occ]"
    unfolding am by (rule frozen_filter)
  with ca cb am show ?thesis by simp
qed

lemma occupancy_loop_filter:
  assumes "occupancy_loop c_occ overlap active_aos thr idxs acc = Inr r"
  shows "r = (fst acc @ filter (\<lambda>i. occupancy_is_active c_occ overlap active_aos thr i = Inr True) idxs,
              snd acc @ filter (\<lambda>i. occupancy_is_active c_occ overlap active_aos thr i \<noteq> Inr True) idxs)"
  using assms
proof (induction idxs arbitrary: acc)
  case Nil
  then show ?case by simp
next
  case (Cons i idxs)
  from Cons.prems obtain b where
    b: "occupancy_is_active c_occ overlap active_aos thr i = Inr b" and
    rest: "occupancy_loop c_occ overlap active_aos thr idxs
             (if b then (fst acc @ [i], snd acc) else (fst acc, snd acc @ [i])) = Inr r"
    by (auto split: sum.splits)
  from Cons.IH [OF rest] b show ?case by (cases b) simp_all
qed

lemma mset_filter_split: "mset (filter P xs @ filter (\<lambda>i. \<not> P i) xs) = mset xs"
  by (induction xs) simp_all

text \<open>What a returned pair is made of: columns of the classified matrix, each once.\<close>

lemma mulliken_partition_split:
  assumes "given_or_occupied pyscf_mf c_occ_arg = Inr c_in"
    and "c_occ = localized pm localize (mf_mol pyscf_mf) c_in"
    and "mulliken_partition pm thr localize pyscf_mf active_atoms c_occ_arg = Inr (c_a, c_b)"
  shows "nrows c_a = nrows c_occ \<and> nrows c_b = nrows c_occ
       \<and> (\<exists>idx_a idx_b. columns c_a = map (column c_occ) idx_a
             \<and> columns c_b = map (column c_occ) idx_b
             \<and> mset (idx_a @ idx_b) = mset [0..<ncols c_occ])"
proof (cases active_atoms)
  case None
  with assms have "c_a = c_occ" "c_b = select_cols c_occ []"
    by (auto simp: mulliken_partition_def Let_def split: if_splits)
  then have "columns c_a = map (column c_occ) [0..<ncols c_occ]"
    "columns c_b = map (column c_occ) []" "nrows c_a = nrows c_occ" "nrows c_b = nrows c_occ"
    by (simp_all add: columns_column)
  then show ?thesis by (metis append_Nil2)
next
  case (Some atoms)
  show ?thesis
  proof (cases atoms)
    case Nil
    with Some assms have "c_b = c_occ" "c_a = select_cols c_occ []"
      by (auto simp: mulliken_partition_def Let_def split: if_splits)
    then have "columns c_b = map (column c_occ) [0..<ncols c_occ]"
      "columns c_a = map (column c_occ) []" "nrows c_a = nrows c_occ" "nrows c_b = nrows c_occ"
      by (simp_all add: columns_column)
    then show ?thesis by (metis append_Nil)
  next
    case (Cons a as)
    then have ne: "atoms \<noteq> []" by simp
    from mulliken_partition_filter [OF assms(1,2) ne] assms(3) Some
    have ca: "c_a = select_cols c_occ
                 (filter (exceeds_on_some_atom pyscf_mf c_occ thr atoms) [0..<ncols c_occ])"
      and cb: "c_b = select_cols c_occ
                 (filter (\<lambda>i. \<not> exceeds_on_some_atom pyscf_mf c_occ thr atoms i)
                    [0..<ncols c_occ])"
      by simp_all
    from ca cb have "nrows c_a = nrows c_occ" "nrows c_b = nrows c_occ" by simp_all
    moreover from ca have "columns c_a = map (column c_occ)
        (filter (exceeds_on_some_atom pyscf_mf c_occ thr atoms) [0..<ncols c_occ])"
      by (simp add: columns_select_cols)
    moreover from cb have "columns c_b = map (column c_occ)
        (filter (\<lambda>i. \<not> exceeds_on_some_atom pyscf_mf c_occ thr atoms i) [0..<ncols c_occ])"
      by (simp add: columns_select_cols)
    ultimately show ?thesis using mset_filter_split by blast
  qed
qed

lemma occupancy_partition_split:
  assumes "given_or_occupied pyscf_mf c_occ_arg = Inr c_in"
    and "c_occ = localized pm localize (mf_mol pyscf_mf) c_in"
    and "occupancy_partition pm thr localize pyscf_mf active_atoms c_occ_arg = Inr (c_a, c_b)"
  shows "nrows c_a = nrows c_occ \<and> nrows c_b = nrows c_occ
       \<and> (\<exists>idx_a idx_b. columns c_a = map (column c_occ) idx_a
             \<and> columns c_b = map (column c_occ) idx_b
             \<and> mset (idx_a @ idx_b) = mset [0..<ncols c_occ])"
proof (cases active_atoms)
  case None
  with assms have "c_a = c_occ" "c_b = select_cols c_occ []"
    by (auto simp: occupancy_partition_def Let_def split: if_splits)
  then have "columns c_a = map (column c_occ) [0..<ncols c_occ]"
    "columns c_b = map (column c_occ) []" "nrows c_a = nrows c_occ" "nrows c_b = nrows c_occ"
    by (simp_all add: columns_column)
  then show ?thesis by (metis append_Nil2)
next
  case (Some atoms)
  show ?thesis
  proof (cases atoms)
    case Nil
    with Some assms have "c_b = c_occ" "c_a = select_cols c_occ []"
      by (auto simp: occupancy_partition_def Let_def split: if_splits)
    then have "columns c_b = map (column c_occ) [0..<ncols c_occ]"
      "columns c_a = map (column c_occ) []" "nrows c_a = nrows c_occ" "nrows c_b = nrows c_occ"
      by (simp_all add: columns_column)
    then show ?thesis by (metis append_Nil)
  next
    case (Cons a as)
    with Some assms obtain active_aos active_mos frozen_mos where
      loop: "occupancy_loop c_occ (get_ovlp pyscf_mf) active_aos thr [0..<ncols c_occ] ([], [])
               = Inr (active_mos, frozen_mos)" and
      ca: "c_a = select_cols c_occ active_mos" and cb: "c_b = select_cols c_occ frozen_mos"
      by (auto simp: occupancy_partition_def Let_def split: sum.splits if_splits)
    from occupancy_loop_filter [OF loop] obtain P where
      am: "active_mos = filter P [0..<ncols c_occ]" and
      fm: "frozen_mos = filter (\<lambda>i. \<not> P i) [0..<ncols c_occ]"
      by simp
    from ca cb have "nrows c_a = nrows c_occ" "nrows c_b = nrows c_occ" by simp_all
    moreover from ca am have "columns c_a = map (column c_occ) (filter P [0..<ncols c_occ])"
      by (simp add: columns_select_cols)
    moreover from cb fm have
      "columns c_b = map (column c_occ) (filter (\<lambda>i. \<not> P i) [0..<ncols c_occ])"
      by (simp add: columns_select_cols)
    ultimately show ?thesis using mset_filter_split by blast
  qed
qed



section \<open>The rotation and split of \<open>spade_partition\<close>\<close>

lemma nrows_mat_mul [simp]: "nrows (mat_mul A B) = nrows A"
  by (simp add: mat_mul_def)

lemma ncols_mat_mul [simp]: "ncols (mat_mul A B) = ncols B"
  by (simp add: mat_mul_def)

lemma nrows_transpose [simp]: "nrows (transpose_mat A) = ncols A"
  by (simp add: transpose_mat_def)

lemma ncols_transpose [simp]: "ncols (transpose_mat A) = nrows A"
  by (simp add: transpose_mat_def)

lemma nrows_slice_cols [simp]: "nrows (slice_cols A a b) = nrows A"
  by (simp add: slice_cols_def)

lemma ncols_slice_cols [simp]: "ncols (slice_cols A a b) = min b (ncols A) - a"
  by (simp add: slice_cols_def)

lemma gaps_short: "length s \<le> 1 \<Longrightarrow> gaps s = []"
  by (simp add: gaps_def)

lemma length_gaps [simp]: "length (gaps s) = length s - 1"
  by (simp add: gaps_def)

lemma nth_gaps: "i < length s - 1 \<Longrightarrow> gaps s ! i = s ! i - s ! (i + 1)"
  by (simp add: gaps_def)

lemma mat_mul_select_cols:
  assumes "ncols C = nrows V" and "list_all (\<lambda>j. j < ncols V) idx"
  shows "mat_mul C (select_cols V idx) = select_cols (mat_mul C V) idx"
proof -
  have "mk_mat (nrows C) (length idx)
          (\<lambda>i j. \<Sum>k\<leftarrow>[0..<ncols C]. ent C i k * ent (select_cols V idx) k j)
      = mk_mat (nrows C) (length idx) (\<lambda>i j. ent (mat_mul C V) i (idx ! j))"
  proof (rule mk_mat_cong)
    fix i j assume i: "i < nrows C" and j: "j < length idx"
    from j assms(2) have jj: "idx ! j < ncols V" by (simp add: list_all_length)
    have "(\<Sum>k\<leftarrow>[0..<ncols C]. ent C i k * ent (select_cols V idx) k j)
        = (\<Sum>k\<leftarrow>[0..<ncols C]. ent C i k * ent V k (idx ! j))"
      by (rule arg_cong [where f = sum_list], rule map_cong)
         (simp_all add: ent_select_cols assms(1) j)
    also have "\<dots> = ent (mat_mul C V) i (idx ! j)"
      using i jj by (simp add: mat_mul_def)
    finally show "(\<Sum>k\<leftarrow>[0..<ncols C]. ent C i k * ent (select_cols V idx) k j)
        = ent (mat_mul C V) i (idx ! j)" .
  qed
  then show ?thesis by (simp add: mat_mul_def select_cols_def)
qed

lemma mat_mul_slice_cols:
  assumes "ncols C = nrows V"
  shows "mat_mul C (slice_cols V a b) = select_cols (mat_mul C V) [a..<min b (ncols V)]"
  unfolding slice_cols_def
  by (rule mat_mul_select_cols [OF assms]) (simp add: list_all_iff)

text \<open>What \<open>spade_partition\<close> returns, when it returns.\<close>

lemma spade_partition_result:
  assumes "given_or_occupied pyscf_mf c_occ_arg = Inr c_occ"
    and "spade_partition sqrtm svd argpartition_last pyscf_mf active_atoms c_occ_arg
           = Inr (c_a, c_b)"
  shows "\<exists>c_orth n_act_mos.
           c_orthogonal_ao sqrtm pyscf_mf active_atoms c_occ = Inr c_orth
         \<and> rank_gap argpartition_last (fst (svd c_orth)) (nrows (snd (svd c_orth)))
             = Inr n_act_mos
         \<and> ncols c_occ = ncols (snd (svd c_orth))
         \<and> c_a = select_cols (mat_mul c_occ (transpose_mat (snd (svd c_orth))))
                   [0..<min n_act_mos (nrows (snd (svd c_orth)))]
         \<and> c_b = select_cols (mat_mul c_occ (transpose_mat (snd (svd c_orth))))
                   [n_act_mos..<nrows (snd (svd c_orth))]"
proof -
  from assms obtain c_orth n_act_mos where
    x: "c_orthogonal_ao sqrtm pyscf_mf active_atoms c_occ = Inr c_orth" and
    n: "rank_gap argpartition_last (fst (svd c_orth)) (nrows (snd (svd c_orth))) = Inr n_act_mos" and
    r: "rotate_split c_occ (snd (svd c_orth)) n_act_mos = Inr (c_a, c_b)"
    by (auto simp: spade_partition_def split: sum.splits)
  from r have sh: "ncols c_occ = nrows (transpose_mat (snd (svd c_orth)))"
    by (auto simp: rotate_split_def Let_def matmul_def split: if_splits)
  with r have "c_a = mat_mul c_occ (slice_cols (transpose_mat (snd (svd c_orth))) 0 n_act_mos)"
    "c_b = mat_mul c_occ (slice_cols (transpose_mat (snd (svd c_orth))) n_act_mos
                            (ncols (transpose_mat (snd (svd c_orth)))))"
    by (auto simp: rotate_split_def Let_def matmul_def split: if_splits)
  then have "c_a = select_cols (mat_mul c_occ (transpose_mat (snd (svd c_orth))))
                   [0..<min n_act_mos (nrows (snd (svd c_orth)))]"
    "c_b = select_cols (mat_mul c_occ (transpose_mat (snd (svd c_orth))))
                   [n_act_mos..<nrows (snd (svd c_orth))]"
    by (simp_all add: mat_mul_slice_cols [OF sh])
  with x n sh show ?thesis by simp
qed

lemma rotate_split_returns:
  assumes "ncols c_occ = ncols v_vecs"
  shows "rotate_split c_occ v_vecs n =
           Inr (select_cols (mat_mul c_occ (transpose_mat v_vecs)) [0..<min n (nrows v_vecs)],
                select_cols (mat_mul c_occ (transpose_mat v_vecs)) [n..<nrows v_vecs])"
proof -
  from assms have sh: "ncols c_occ = nrows (transpose_mat v_vecs)" by simp
  show ?thesis
    by (simp add: rotate_split_def Let_def matmul_def assms mat_mul_slice_cols [OF sh])
qed

lemma upt_split_mset: "mset ([0..<min n m] @ [n..<m]) = mset [0..<m]"
proof (cases "n \<le> m")
  case True
  then obtain d where d: "m = n + d" by (auto simp: le_iff_add)
  have "[0..<n + d] = [0..<n] @ [n..<n + d]" by (rule upt_add_eq_append) simp
  with d True show ?thesis by (simp add: min_absorb1)
next
  case False
  then show ?thesis by (simp add: min_absorb2)
qed

lemma spade_partition_split:
  assumes "given_or_occupied pyscf_mf c_occ_arg = Inr c_occ"
    and "spade_partition sqrtm svd argpartition_last pyscf_mf active_atoms c_occ_arg
           = Inr (c_a, c_b)"
  shows "\<exists>c_orth. c_orthogonal_ao sqrtm pyscf_mf active_atoms c_occ = Inr c_orth
       \<and> ncols c_occ = ncols (snd (svd c_orth))
       \<and> nrows c_a = nrows c_occ \<and> nrows c_b = nrows c_occ
       \<and> (\<exists>idx_a idx_b.
             columns c_a = map (column (mat_mul c_occ (transpose_mat (snd (svd c_orth))))) idx_a
           \<and> columns c_b = map (column (mat_mul c_occ (transpose_mat (snd (svd c_orth))))) idx_b
           \<and> mset (idx_a @ idx_b) = mset [0..<nrows (snd (svd c_orth))])"
proof -
  from spade_partition_result [OF assms] obtain c_orth n_act_mos where
    x: "c_orthogonal_ao sqrtm pyscf_mf active_atoms c_occ = Inr c_orth" and
    sh: "ncols c_occ = ncols (snd (svd c_orth))" and
    ca: "c_a = select_cols (mat_mul c_occ (transpose_mat (snd (svd c_orth))))
                   [0..<min n_act_mos (nrows (snd (svd c_orth)))]" and
    cb: "c_b = select_cols (mat_mul c_occ (transpose_mat (snd (svd c_orth))))
                   [n_act_mos..<nrows (snd (svd c_orth))]"
    by blast
  from ca cb have "nrows c_a = nrows c_occ" "nrows c_b = nrows c_occ" by simp_all
  moreover from ca have "columns c_a =
      map (column (mat_mul c_occ (transpose_mat (snd (svd c_orth)))))
        [0..<min n_act_mos (nrows (snd (svd c_orth)))]"
    by (simp add: columns_select_cols)
  moreover from cb have "columns c_b =
      map (column (mat_mul c_occ (transpose_mat (snd (svd c_orth)))))
        [n_act_mos..<nrows (snd (svd c_orth))]"
    by (simp add: columns_select_cols)
  ultimately show ?thesis using x sh upt_split_mset by blast
qed

text \<open>
  Claim C8. \<^verbatim>\<open>spade_partition\<close> needs a non-empty \<^verbatim>\<open>active_atoms\<close>: for every
  mean-field input a call with \<^verbatim>\<open>active_atoms=None\<close> raises, and so does a call with
  the empty list, given that the decomposition of a matrix without rows has no singular
  values (numpy then fails on the empty sequence of gaps). Neither call returns a pair.
\<close>

theorem spade_requires_active_atoms:
  "(\<exists>e. spade_partition sqrtm svd argpartition_last pyscf_mf None c_occ_arg = Inl e)
   \<and> ((\<forall>X. nrows X = 0 \<longrightarrow> svd_shape X (svd X))
        \<longrightarrow> (\<exists>e. spade_partition sqrtm svd argpartition_last pyscf_mf (Some []) c_occ_arg
                   = Inl e))"
proof (intro conjI impI)
  show "\<exists>e. spade_partition sqrtm svd argpartition_last pyscf_mf None c_occ_arg = Inl e"
    by (simp add: spade_partition_def c_orthogonal_ao_def split: sum.splits)
next
  assume shape: "\<forall>X. nrows X = 0 \<longrightarrow> svd_shape X (svd X)"
  have "spade_partition sqrtm svd argpartition_last pyscf_mf (Some []) c_occ_arg \<noteq> Inr r" for r
  proof
    assume ret: "spade_partition sqrtm svd argpartition_last pyscf_mf (Some []) c_occ_arg = Inr r"
    then obtain c_occ c_orth n where
      x: "c_orthogonal_ao sqrtm pyscf_mf (Some []) c_occ = Inr c_orth" and
      n: "rank_gap argpartition_last (fst (svd c_orth)) (nrows (snd (svd c_orth))) = Inr n"
      by (auto simp: spade_partition_def split: sum.splits)
    from x have "nrows c_orth = 0"
      by (auto simp: c_orthogonal_ao_def select_rows_def split: sum.splits)
    with shape have "fst (svd c_orth) = []" by (simp add: svd_shape_def)
    with n show False by (simp add: rank_gap_def gaps_short Let_def)
  qed
  then show "\<exists>e. spade_partition sqrtm svd argpartition_last pyscf_mf (Some []) c_occ_arg = Inl e"
    by (cases "spade_partition sqrtm svd argpartition_last pyscf_mf (Some []) c_occ_arg") auto
qed

lemma c_orthogonal_ao_ncols:
  assumes "c_orthogonal_ao sqrtm pyscf_mf active_atoms c_occ = Inr c_orth"
  shows "ncols c_orth = ncols c_occ"
  using assms
  by (auto simp: c_orthogonal_ao_def select_rows_def matmul_def
      split: option.splits sum.splits if_splits)

text \<open>
  Claim C7. Let \<open>s\<close> be the singular values of the active block, with one zero appended
  when there are fewer of them than right singular vectors, and let there be more than
  one singular value. Then \<^verbatim>\<open>spade_partition\<close> returns, and the number of active
  orbitals is one more than the index that numpy picks among the gaps
  \<open>s ! i - s ! (i + 1)\<close>, an index of a greatest gap. In particular, when the greatest
  gap is unique and lies behind the first \<open>k\<close> singular values (between \<open>s ! (k - 1)\<close> and
  \<open>s ! k\<close>), exactly \<open>k\<close> orbitals are active.
\<close>

theorem spade_rank_gap:
  assumes "given_or_occupied pyscf_mf c_occ_arg = Inr c_occ"
    and "c_orthogonal_ao sqrtm pyscf_mf active_atoms c_occ = Inr c_orth"
    and "svd_shape c_orth (svd c_orth)"
    and "2 \<le> length (fst (svd c_orth))"
    and "s = (if length (fst (svd c_orth)) \<noteq> nrows (snd (svd c_orth))
              then fst (svd c_orth) @ [0] else fst (svd c_orth))"
    and "is_argmax (gaps s) (argpartition_last (gaps s))"
  shows "\<exists>c_a c_b.
           spade_partition sqrtm svd argpartition_last pyscf_mf active_atoms c_occ_arg
             = Inr (c_a, c_b)
         \<and> ncols c_a = argpartition_last (gaps s) + 1
         \<and> (\<forall>i<length (gaps s). gaps s ! i = s ! i - s ! (i + 1)
                \<and> gaps s ! i \<le> gaps s ! argpartition_last (gaps s))
         \<and> (\<forall>k. 1 \<le> k \<and> k \<le> length (gaps s)
                \<and> (\<forall>i<length (gaps s). i \<noteq> k - 1 \<longrightarrow> gaps s ! i < gaps s ! (k - 1))
              \<longrightarrow> ncols c_a = k)"
proof -
  let ?sv = "fst (svd c_orth)" and ?v = "snd (svd c_orth)"
  let ?m = "argpartition_last (gaps s)"
  from assms(4,5) have len: "2 \<le> length s" by (auto split: if_splits)
  then have "length (gaps s) \<noteq> 0" by simp
  then have gne: "gaps s \<noteq> []" by (simp only: length_0_conv) simp
  from assms(4,5) gne have rg: "rank_gap argpartition_last ?sv (nrows ?v) = Inr (?m + 1)"
    by (simp add: rank_gap_def Let_def)
  from assms(3) c_orthogonal_ao_ncols [OF assms(2)] have
    sh: "ncols c_occ = ncols ?v" and nv: "nrows ?v = ncols c_occ" and
    lsv: "length ?sv = min (nrows c_orth) (ncols c_occ)"
    by (simp_all add: svd_shape_def)
  from assms(6) have mlt: "?m < length s - 1" and
    mmax: "\<And>i. i < length s - 1 \<Longrightarrow> gaps s ! i \<le> gaps s ! ?m"
    by (simp_all add: is_argmax_def list_all_length)
  have bound: "?m + 1 \<le> nrows ?v"
  proof (cases "length ?sv \<noteq> nrows ?v")
    case True
    with assms(5) have "length s = length ?sv + 1" by simp
    with mlt lsv nv show ?thesis by simp
  next
    case False
    with assms(5) have "length s = nrows ?v" by simp
    with mlt show ?thesis by simp
  qed
  define c_a where "c_a = select_cols (mat_mul c_occ (transpose_mat ?v)) [0..<min (?m + 1) (nrows ?v)]"
  define c_b where "c_b = select_cols (mat_mul c_occ (transpose_mat ?v)) [?m + 1..<nrows ?v]"
  have ret: "spade_partition sqrtm svd argpartition_last pyscf_mf active_atoms c_occ_arg
             = Inr (c_a, c_b)"
    using assms(1,2) rg rotate_split_returns [OF sh, of "?m + 1"]
    by (simp add: spade_partition_def c_a_def c_b_def)
  have nc: "ncols c_a = ?m + 1"
    using bound by (simp add: c_a_def min_absorb1)
  have g: "\<forall>i<length (gaps s). gaps s ! i = s ! i - s ! (i + 1) \<and> gaps s ! i \<le> gaps s ! ?m"
    using mmax by (simp add: nth_gaps)
  have u: "\<forall>k. 1 \<le> k \<and> k \<le> length (gaps s)
                \<and> (\<forall>i<length (gaps s). i \<noteq> k - 1 \<longrightarrow> gaps s ! i < gaps s ! (k - 1))
              \<longrightarrow> ncols c_a = k"
  proof (intro allI impI)
    fix k assume k: "1 \<le> k \<and> k \<le> length (gaps s)
                \<and> (\<forall>i<length (gaps s). i \<noteq> k - 1 \<longrightarrow> gaps s ! i < gaps s ! (k - 1))"
    have "?m = k - 1"
    proof (rule ccontr)
      assume "?m \<noteq> k - 1"
      with k mlt have "gaps s ! ?m < gaps s ! (k - 1)" by simp
      moreover from k have "1 \<le> k" "k \<le> length s - 1" by simp_all
      then have "k - 1 < length s - 1" by arith
      then have "gaps s ! (k - 1) \<le> gaps s ! ?m" by (rule mmax)
      ultimately show False by simp
    qed
    with nc k show "ncols c_a = k" by simp
  qed
  from ret nc g u show ?thesis by blast
qed




section \<open>Column completeness and the population rule\<close>

lemma split_complete:
  assumes "columns A = map (column M) ia" and "columns B = map (column M) ib"
    and "mset (ia @ ib) = mset [0..<ncols M]"
  shows "ncols A + ncols B = ncols M \<and> mset (columns A @ columns B) = mset (columns M)"
proof -
  have "ncols A + ncols B = length (columns A @ columns B)" by simp
  also have "\<dots> = length (ia @ ib)" using assms(1,2) by simp
  also have "\<dots> = size (mset (ia @ ib))" by (simp only: size_mset)
  also have "\<dots> = ncols M" using assms(3) by simp
  finally have n: "ncols A + ncols B = ncols M" .
  have "mset (columns A @ columns B) = image_mset (column M) (mset (ia @ ib))"
    using assms(1,2) by simp
  also have "\<dots> = mset (columns M)"
    using assms(3) by (simp add: columns_column)
  finally show ?thesis using n by simp
qed

text \<open>
  Claim C3, as amended. Whenever a partitioner returns a pair \<open>(active, frozen)\<close>, the
  columns of \<open>active\<close> followed by those of \<open>frozen\<close> are, each as often as it occurs,
  the columns of the matrix that the partitioner splits, and the two column counts add
  up to that matrix's column count. For the closures of \<^verbatim>\<open>mulliken_partition\<close> and
  \<^verbatim>\<open>occupancy_partition\<close> this matrix is the occupied coefficient matrix itself when
  \<open>localize\<close> is off and the result of the localisation when it is on; for
  \<^verbatim>\<open>spade_partition\<close> it is the occupied coefficient matrix multiplied by the transpose
  of the matrix of right singular vectors, which has as many columns as the occupied
  matrix when the decomposition has the documented shape.
\<close>

theorem partition_column_completeness:
  assumes "given_or_occupied pyscf_mf c_occ_arg = Inr c_in"
  shows "(mulliken_partition pm thr localize pyscf_mf active_atoms c_occ_arg = Inr (c_a, c_b)
            \<longrightarrow> ncols c_a + ncols c_b = ncols (localized pm localize (mf_mol pyscf_mf) c_in)
              \<and> mset (columns c_a @ columns c_b)
                  = mset (columns (localized pm localize (mf_mol pyscf_mf) c_in)))
       \<and> (occupancy_partition pm thr localize pyscf_mf active_atoms c_occ_arg = Inr (c_a, c_b)
            \<longrightarrow> ncols c_a + ncols c_b = ncols (localized pm localize (mf_mol pyscf_mf) c_in)
              \<and> mset (columns c_a @ columns c_b)
                  = mset (columns (localized pm localize (mf_mol pyscf_mf) c_in)))
       \<and> (spade_partition sqrtm svd argpartition_last pyscf_mf active_atoms c_occ_arg
            = Inr (c_a, c_b)
            \<longrightarrow> (\<exists>c_orth. c_orthogonal_ao sqrtm pyscf_mf active_atoms c_in = Inr c_orth
                  \<and> ncols c_a + ncols c_b = nrows (snd (svd c_orth))
                  \<and> mset (columns c_a @ columns c_b)
                      = mset (columns (mat_mul c_in (transpose_mat (snd (svd c_orth)))))
                  \<and> (svd_shape c_orth (svd c_orth) \<longrightarrow> ncols c_a + ncols c_b = ncols c_in)))"
proof -
  have m: "ncols c_a + ncols c_b = ncols (localized pm localize (mf_mol pyscf_mf) c_in)
      \<and> mset (columns c_a @ columns c_b)
          = mset (columns (localized pm localize (mf_mol pyscf_mf) c_in))"
    if "mulliken_partition pm thr localize pyscf_mf active_atoms c_occ_arg = Inr (c_a, c_b)"
    using mulliken_partition_split [OF assms refl that] split_complete by blast
  have o: "ncols c_a + ncols c_b = ncols (localized pm localize (mf_mol pyscf_mf) c_in)
      \<and> mset (columns c_a @ columns c_b)
          = mset (columns (localized pm localize (mf_mol pyscf_mf) c_in))"
    if "occupancy_partition pm thr localize pyscf_mf active_atoms c_occ_arg = Inr (c_a, c_b)"
    using occupancy_partition_split [OF assms refl that] split_complete by blast
  have s: "\<exists>c_orth. c_orthogonal_ao sqrtm pyscf_mf active_atoms c_in = Inr c_orth
                  \<and> ncols c_a + ncols c_b = nrows (snd (svd c_orth))
                  \<and> mset (columns c_a @ columns c_b)
                      = mset (columns (mat_mul c_in (transpose_mat (snd (svd c_orth)))))
                  \<and> (svd_shape c_orth (svd c_orth) \<longrightarrow> ncols c_a + ncols c_b = ncols c_in)"
    if "spade_partition sqrtm svd argpartition_last pyscf_mf active_atoms c_occ_arg
            = Inr (c_a, c_b)"
  proof -
    from spade_partition_split [OF assms that] obtain c_orth idx_a idx_b where
      x: "c_orthogonal_ao sqrtm pyscf_mf active_atoms c_in = Inr c_orth" and
      ca: "columns c_a = map (column (mat_mul c_in (transpose_mat (snd (svd c_orth))))) idx_a" and
      cb: "columns c_b = map (column (mat_mul c_in (transpose_mat (snd (svd c_orth))))) idx_b" and
      ms: "mset (idx_a @ idx_b) = mset [0..<nrows (snd (svd c_orth))]"
      by blast
    from ms have "mset (idx_a @ idx_b)
        = mset [0..<ncols (mat_mul c_in (transpose_mat (snd (svd c_orth))))]"
      by simp
    from split_complete [OF ca cb this] have
      n: "ncols c_a + ncols c_b = nrows (snd (svd c_orth))" and
      m: "mset (columns c_a @ columns c_b)
            = mset (columns (mat_mul c_in (transpose_mat (snd (svd c_orth)))))"
      by simp_all
    have "svd_shape c_orth (svd c_orth) \<longrightarrow> ncols c_a + ncols c_b = ncols c_in"
      using n c_orthogonal_ao_ncols [OF x] by (simp add: svd_shape_def)
    with x n m show ?thesis by blast
  qed
  from m o s show ?thesis by blast
qed

text \<open>
  When the occupied orbitals are the first orbitals of the mean field and the overlap
  matrix has the shape of the densities, the occupation of line 42 is the orbital's own
  and the closure follows the population rule.
\<close>

lemma einsum_same_shape:
  assumes "nrows A = nrows B" and "ncols A = ncols B"
  shows "einsum_ij_ij A B = Inr (frobenius A B)"
proof -
  have "(\<Sum>i\<leftarrow>[0..<nrows A]. \<Sum>j\<leftarrow>[0..<ncols A]. broadcast_ent A i j * broadcast_ent B i j)
      = (\<Sum>i\<leftarrow>[0..<nrows A]. \<Sum>j\<leftarrow>[0..<ncols A]. ent A i j * ent B i j)"
  proof (rule arg_cong [where f = sum_list], rule map_cong, rule refl)
    fix i assume "i \<in> set [0..<nrows A]"
    then have i: "i < nrows A" by simp
    show "(\<Sum>j\<leftarrow>[0..<ncols A]. broadcast_ent A i j * broadcast_ent B i j)
        = (\<Sum>j\<leftarrow>[0..<ncols A]. ent A i j * ent B i j)"
    proof (rule arg_cong [where f = sum_list], rule map_cong, rule refl)
      fix j assume "j \<in> set [0..<ncols A]"
      then have j: "j < ncols A" by simp
      from i j have "broadcast_ent A i j = ent A i j"
        by (auto simp: broadcast_ent_def)
      moreover from i j assms have "broadcast_ent B i j = ent B i j"
        by (auto simp: broadcast_ent_def)
      ultimately show "broadcast_ent A i j * broadcast_ent B i j = ent A i j * ent B i j"
        by simp
    qed
  qed
  then show ?thesis
    using assms by (simp add: einsum_ij_ij_def broadcast_dim_def frobenius_def)
qed

lemma exceeds_is_population_rule:
  assumes "nrows (get_ovlp mf) = nrows c_occ" and "ncols (get_ovlp mf) = nrows c_occ"
    and "mo_occ mf ! i = filter (\<lambda>x. x > 0) (mo_occ mf) ! i"
  shows "exceeds_on_some_atom mf c_occ thr atoms i = active_by_population mf c_occ thr atoms i"
proof -
  have "q_atom_mo (density (select_cols c_occ [i]) (\<lambda>k. mo_occ mf ! i)) (get_ovlp mf) oe
      = Inr (orbital_population mf c_occ i oe)" for oe
    unfolding q_atom_mo_def orbital_population_def assms(3)
    by (rule einsum_same_shape) (simp_all add: density_def slice_cols_def assms(1,2))
  then have "(case atom_aos (ao_offsets (mf_mol mf)) a of
               Inl e \<Rightarrow> False
             | Inr oe \<Rightarrow>
                 (case q_atom_mo (density (select_cols c_occ [i]) (\<lambda>k. mo_occ mf ! i))
                         (get_ovlp mf) oe of
                    Inl e \<Rightarrow> False
                  | Inr q \<Rightarrow> q > thr))
           = (case atom_aos (ao_offsets (mf_mol mf)) a of
                Inl e \<Rightarrow> False
              | Inr oe \<Rightarrow> orbital_population mf c_occ i oe > thr)" for a
    by (cases "atom_aos (ao_offsets (mf_mol mf)) a") simp_all
  then show ?thesis
    by (simp add: exceeds_on_some_atom_def active_by_population_def)
qed

lemma mulliken_rule_occupied_first:
  assumes "given_or_occupied pyscf_mf c_occ_arg = Inr c_in"
    and "c_occ = localized pm localize (mf_mol pyscf_mf) c_in"
    and "atoms \<noteq> []"
    and "mulliken_partition pm thr localize pyscf_mf (Some atoms) c_occ_arg = Inr (c_a, c_b)"
    and "nrows (get_ovlp pyscf_mf) = nrows c_occ" and "ncols (get_ovlp pyscf_mf) = nrows c_occ"
    and "\<And>i. i < ncols c_occ
           \<Longrightarrow> mo_occ pyscf_mf ! i = filter (\<lambda>x. x > 0) (mo_occ pyscf_mf) ! i"
  shows "c_a = select_cols c_occ
                 (filter (active_by_population pyscf_mf c_occ thr atoms) [0..<ncols c_occ])
       \<and> c_b = select_cols c_occ
                 (filter (\<lambda>i. \<not> active_by_population pyscf_mf c_occ thr atoms i)
                    [0..<ncols c_occ])"
proof -
  have "filter (exceeds_on_some_atom pyscf_mf c_occ thr atoms) [0..<ncols c_occ]
      = filter (active_by_population pyscf_mf c_occ thr atoms) [0..<ncols c_occ]"
    by (rule filter_cong) (simp_all add: exceeds_is_population_rule [OF assms(5,6)] assms(7))
  moreover have
    "filter (\<lambda>i. \<not> exceeds_on_some_atom pyscf_mf c_occ thr atoms i) [0..<ncols c_occ]
      = filter (\<lambda>i. \<not> active_by_population pyscf_mf c_occ thr atoms i) [0..<ncols c_occ]"
    by (rule filter_cong) (simp_all add: exceeds_is_population_rule [OF assms(5,6)] assms(7))
  ultimately show ?thesis
    using mulliken_partition_filter [OF assms(1,2,3,4)] by simp
qed

text \<open>
  Claim C6. The claim makes an occupied orbital active exactly when some active atom's
  population of that orbital's density exceeds the threshold. The closure does not do
  that on the mean field \<open>ex_mf_gap\<close>, whose occupations are 2, 0, 2, with atom 2 active
  and the threshold 2/5: the second occupied orbital has the population 1/2 on atom 2,
  which exceeds the threshold, but line 42 weights column 1 of the occupied matrix with
  \<^verbatim>\<open>mo_occ[1]\<close>, the occupation 0 of the empty orbital, finds no population, and the
  closure returns no active column and both columns as frozen.
\<close>

theorem mulliken_population_wrong_occupation:
  "given_or_occupied ex_mf_gap None = Inr ex_c_gap
   \<and> mulliken_partition ex_pm (2/5) False ex_mf_gap (Some [2]) None
       = Inr (\<lparr>nrows = 3, ncols = 0, rws = [[], [], []]\<rparr>, ex_c_gap)
   \<and> atom_aos (ao_offsets (mf_mol ex_mf_gap)) 2 = Inr (2, 3)
   \<and> orbital_population ex_mf_gap ex_c_gap 1 (2, 3) = 1/2
   \<and> active_by_population ex_mf_gap ex_c_gap (2/5) [2] 1
   \<and> \<not> exceeds_on_some_atom ex_mf_gap ex_c_gap (2/5) [2] 1"
  by code_simp

section \<open>The three-atom toy system runs\<close>

lemma ex3_occupied: "given_or_occupied ex_mf3 None = Inr ex_c3"
  by code_simp

lemma ex3_mulliken:
  "mulliken_partition ex_pm (2/5) False ex_mf3 (Some [0, 1]) None = Inr (ex_act3, ex_frz3)"
  by code_simp

lemma ex3_occupancy:
  "occupancy_partition ex_pm (2/5) False ex_mf3 (Some [0, 1]) None = Inr (ex_act3, ex_frz3)"
  by code_simp

lemma ex3_spade:
  "spade_partition ex_sqrtm ex_svd ex_argmax ex_mf3 (Some [0, 1]) None = Inr (ex_act3, ex_frz3)"
  by code_simp

lemma ex3_orth: "c_orthogonal_ao ex_sqrtm ex_mf3 (Some [0, 1]) ex_c3 = Inr ex_orth3"
  by code_simp

lemma ex_svd_shape: "svd_shape X (ex_svd X)"
  by (simp add: svd_shape_def ex_svd_def)

theorem partition_column_completeness_witness:
  "given_or_occupied ex_mf3 None = Inr ex_c3
   \<and> mulliken_partition ex_pm (2/5) False ex_mf3 (Some [0, 1]) None = Inr (ex_act3, ex_frz3)
   \<and> occupancy_partition ex_pm (2/5) False ex_mf3 (Some [0, 1]) None = Inr (ex_act3, ex_frz3)
   \<and> spade_partition ex_sqrtm ex_svd ex_argmax ex_mf3 (Some [0, 1]) None
       = Inr (ex_act3, ex_frz3)
   \<and> ncols ex_act3 + ncols ex_frz3 = ncols ex_c3
   \<and> mset (columns ex_act3 @ columns ex_frz3) = mset (columns ex_c3)
   \<and> mset (columns ex_act3 @ columns ex_frz3)
       = mset (columns (mat_mul ex_c3 (transpose_mat (snd (ex_svd ex_orth3)))))"
proof -
  have l: "localized ex_pm False (mf_mol ex_mf3) ex_c3 = ex_c3"
    by (simp add: localized_def)
  from partition_column_completeness
    [OF ex3_occupied, of ex_pm "2/5" False "Some [0, 1]" ex_act3 ex_frz3 ex_sqrtm ex_svd ex_argmax]
    ex3_mulliken ex3_occupancy ex3_spade ex3_orth ex3_occupied
  show ?thesis unfolding l by auto
qed

theorem partition_original_columns_counterexample:
  "mulliken_partition ex_pm 1 True ex_mf (Some [1]) (Some ex_id2)
     = Inr (\<lparr>nrows = 2, ncols = 1, rws = [[3/5], [4/5]]\<rparr>,
            \<lparr>nrows = 2, ncols = 1, rws = [[- (4/5)], [3/5]]\<rparr>)
   \<and> mset (columns \<lparr>nrows = 2, ncols = 1, rws = [[3/5], [4/5]]\<rparr>
            @ columns \<lparr>nrows = 2, ncols = 1, rws = [[- (4/5)], [3/5]]\<rparr>)
       \<noteq> mset (columns ex_id2)"
  by code_simp

theorem spade_requires_active_atoms_witness:
  "(\<exists>e. spade_partition ex_sqrtm ex_svd ex_argmax ex_mf3 None None = Inl e)
   \<and> (\<exists>e. spade_partition ex_sqrtm ex_svd ex_argmax ex_mf3 (Some []) None = Inl e)"
  using spade_requires_active_atoms [of ex_sqrtm ex_svd ex_argmax ex_mf3 None] ex_svd_shape
  by blast

theorem spade_rank_gap_witness:
  "given_or_occupied ex_mf3 None = Inr ex_c3
   \<and> c_orthogonal_ao ex_sqrtm ex_mf3 (Some [0, 1]) ex_c3 = Inr ex_orth3
   \<and> svd_shape ex_orth3 (ex_svd ex_orth3)
   \<and> 2 \<le> length (fst (ex_svd ex_orth3))
   \<and> is_argmax (gaps [1, 3/4, 0]) (ex_argmax (gaps [1, 3/4, 0]))
   \<and> (\<exists>c_a c_b. spade_partition ex_sqrtm ex_svd ex_argmax ex_mf3 (Some [0, 1]) None
                   = Inr (c_a, c_b) \<and> ncols c_a = 2)"
proof -
  have n: "2 \<le> length (fst (ex_svd ex_orth3))" by code_simp
  have s: "[1, 3/4, 0] = (if length (fst (ex_svd ex_orth3)) \<noteq> nrows (snd (ex_svd ex_orth3))
              then fst (ex_svd ex_orth3) @ [0] else fst (ex_svd ex_orth3))"
    by code_simp
  have a: "is_argmax (gaps [1, 3/4, 0]) (ex_argmax (gaps [1, 3/4, 0]))" by code_simp
  have g: "gaps [1, 3/4, 0] = [1/4, 3/4]" by code_simp
  have u: "(1::nat) \<le> 2 \<and> 2 \<le> length (gaps [1, 3/4, 0])
      \<and> (\<forall>i<length (gaps [1, 3/4, 0]). i \<noteq> 2 - 1
            \<longrightarrow> gaps [1, 3/4, 0] ! i < gaps [1, 3/4, 0] ! (2 - 1))"
    unfolding g by (simp add: less_Suc_eq)
  from spade_rank_gap
    [where svd = ex_svd and sqrtm = ex_sqrtm and argpartition_last = ex_argmax
       and pyscf_mf = ex_mf3 and c_occ_arg = None and c_occ = ex_c3
       and active_atoms = "Some [0, 1]" and c_orth = ex_orth3 and s = "[1, 3/4, 0]",
     OF ex3_occupied ex3_orth ex_svd_shape n s a] u
  have "\<exists>c_a c_b. spade_partition ex_sqrtm ex_svd ex_argmax ex_mf3 (Some [0, 1]) None
                   = Inr (c_a, c_b) \<and> ncols c_a = 2"
    by blast
  with ex3_occupied ex3_orth ex_svd_shape n a show ?thesis by blast
qed

section \<open>Density additivity\<close>

lemma sum_list_upt: "(\<Sum>k\<leftarrow>[0..<n]. f k) = (\<Sum>k<n. f k)"
  by (simp add: interv_sum_list_conv_sum_set_nat atLeast0LessThan)

lemma sum_list_mset_cong:
  assumes "mset xs = mset ys"
  shows "sum_list (map (f :: nat \<Rightarrow> real) xs) = sum_list (map f ys)"
proof -
  have "sum_list (map f xs) = sum_mset (image_mset f (mset xs))"
    by (simp only: mset_map [symmetric] sum_mset_sum_list)
  also have "\<dots> = sum_mset (image_mset f (mset ys))" using assms by simp
  also have "\<dots> = sum_list (map f ys)"
    by (simp only: mset_map [symmetric] sum_mset_sum_list)
  finally show ?thesis .
qed

lemma ent_columns:
  assumes "columns A = map (column M) ia" and "nrows A = nrows M"
    and "i < nrows M" and "k < ncols A"
  shows "ent A i k = ent M i (ia ! k)"
proof -
  from assms(4) have k: "k < length ia" using assms(1) by (metis length_columns length_map)
  have "columns A ! k ! i = ent A i k"
    using assms(2,3,4) by (simp add: columns_def)
  moreover have "map (column M) ia ! k ! i = ent M i (ia ! k)"
    using k assms(3) by (simp add: column_def)
  ultimately show ?thesis using assms(1) by simp
qed

lemma density_entry_columns:
  assumes "columns A = map (column M) ia" and "nrows A = nrows M"
    and "i < nrows M" and "j < nrows M"
  shows "(\<Sum>k\<leftarrow>[0..<ncols A]. ent A i k * occ * ent A j k)
       = (\<Sum>x\<leftarrow>ia. ent M i x * occ * ent M j x)"
proof -
  have len: "ncols A = length ia" using assms(1) by (metis length_columns length_map)
  have "(\<Sum>k\<leftarrow>[0..<ncols A]. ent A i k * occ * ent A j k)
      = (\<Sum>k\<leftarrow>[0..<ncols A]. ent M i (ia ! k) * occ * ent M j (ia ! k))"
    by (rule arg_cong [where f = sum_list], rule map_cong)
       (simp_all add: ent_columns [OF assms(1,2)] assms(3,4))
  also have "\<dots> = (\<Sum>x\<leftarrow>map (\<lambda>k. ia ! k) [0..<length ia]. ent M i x * occ * ent M j x)"
    by (simp add: len comp_def)
  also have "\<dots> = (\<Sum>x\<leftarrow>ia. ent M i x * occ * ent M j x)"
    by (simp only: map_nth)
  finally show ?thesis .
qed

lemma density_split:
  assumes "nrows A = nrows M" and "nrows B = nrows M"
    and "columns A = map (column M) ia" and "columns B = map (column M) ib"
    and "mset (ia @ ib) = mset [0..<ncols M]"
  shows "mat_add (density A (\<lambda>k. occ)) (density B (\<lambda>k. occ)) = density M (\<lambda>k. occ)"
proof -
  have "mk_mat (nrows M) (nrows M)
          (\<lambda>i j. ent (density A (\<lambda>k. occ)) i j + ent (density B (\<lambda>k. occ)) i j)
      = mk_mat (nrows M) (nrows M)
          (\<lambda>i j. \<Sum>k\<leftarrow>[0..<ncols M]. ent M i k * occ * ent M j k)"
  proof (rule mk_mat_cong)
    fix i j assume i: "i < nrows M" and j: "j < nrows M"
    have "ent (density A (\<lambda>k. occ)) i j + ent (density B (\<lambda>k. occ)) i j
        = (\<Sum>x\<leftarrow>ia. ent M i x * occ * ent M j x) + (\<Sum>x\<leftarrow>ib. ent M i x * occ * ent M j x)"
      using i j assms(1,2)
      by (simp add: density_def density_entry_columns [OF assms(3,1) i j]
            density_entry_columns [OF assms(4,2) i j])
    also have "\<dots> = (\<Sum>x\<leftarrow>ia @ ib. ent M i x * occ * ent M j x)" by simp
    also have "\<dots> = (\<Sum>x\<leftarrow>[0..<ncols M]. ent M i x * occ * ent M j x)"
      by (rule sum_list_mset_cong [OF assms(5)])
    finally show "ent (density A (\<lambda>k. occ)) i j + ent (density B (\<lambda>k. occ)) i j
        = (\<Sum>k\<leftarrow>[0..<ncols M]. ent M i k * occ * ent M j k)" .
  qed
  then show ?thesis using assms(1,2) by (simp add: mat_add_def density_def)
qed

lemma orthonormal_rowsD:
  assumes "orthonormal_rows U" and "p < nrows U" and "q < nrows U"
  shows "(\<Sum>k<ncols U. ent U p k * ent U q k) = (if p = q then 1 else 0)"
  using assms by (simp add: orthonormal_rows_def list_all_iff sum_list_upt)

lemma sum_pick:
  assumes "p < (n :: nat)"
  shows "(\<Sum>q<n. g q * (if p = q then 1 else 0)) = (g p :: real)"
proof -
  have "(\<Sum>q<n. g q * (if p = q then 1 else 0)) = (\<Sum>q\<in>{..<n}. if q = p then g q else 0)"
    by (rule sum.cong) auto
  also have "\<dots> = g p" using assms by simp
  finally show ?thesis .
qed

lemma density_rotate:
  assumes "ncols C = nrows U" and "orthonormal_rows U"
  shows "density (mat_mul C U) (\<lambda>k. occ) = density C (\<lambda>k. occ)"
proof -
  let ?n = "nrows U" and ?m = "ncols U"
  have "mk_mat (nrows C) (nrows C)
          (\<lambda>i j. \<Sum>k\<leftarrow>[0..<?m]. ent (mat_mul C U) i k * occ * ent (mat_mul C U) j k)
      = mk_mat (nrows C) (nrows C) (\<lambda>i j. \<Sum>k\<leftarrow>[0..<ncols C]. ent C i k * occ * ent C j k)"
  proof (rule mk_mat_cong)
    fix i j assume i: "i < nrows C" and j: "j < nrows C"
    have e: "ent (mat_mul C U) r k = (\<Sum>p<?n. ent C r p * ent U p k)"
      if "r < nrows C" and "k < ?m" for r k
      using that by (simp add: mat_mul_def sum_list_upt assms(1))
    have "(\<Sum>k\<leftarrow>[0..<?m]. ent (mat_mul C U) i k * occ * ent (mat_mul C U) j k)
        = (\<Sum>k<?m. ent (mat_mul C U) i k * occ * ent (mat_mul C U) j k)"
      by (rule sum_list_upt)
    also have "\<dots> = (\<Sum>k<?m. (\<Sum>p<?n. ent C i p * ent U p k) * occ
                              * (\<Sum>q<?n. ent C j q * ent U q k))"
      by (rule sum.cong) (simp_all add: e i j)
    also have "\<dots> = (\<Sum>k<?m. \<Sum>p<?n. \<Sum>q<?n.
                        ent C i p * occ * ent C j q * (ent U p k * ent U q k))"
      by (rule sum.cong) (simp_all add: sum_distrib_left sum_distrib_right mult_ac)
    also have "\<dots> = (\<Sum>p<?n. \<Sum>k<?m. \<Sum>q<?n.
                        ent C i p * occ * ent C j q * (ent U p k * ent U q k))"
      by (rule sum.swap)
    also have "\<dots> = (\<Sum>p<?n. \<Sum>q<?n. \<Sum>k<?m.
                        ent C i p * occ * ent C j q * (ent U p k * ent U q k))"
      by (rule sum.cong) (simp_all add: sum.swap [of _ "{..<?n}" "{..<?m}"])
    also have "\<dots> = (\<Sum>p<?n. \<Sum>q<?n.
                        ent C i p * occ * ent C j q * (\<Sum>k<?m. ent U p k * ent U q k))"
      by (simp add: sum_distrib_left)
    also have "\<dots> = (\<Sum>p<?n. \<Sum>q<?n.
                        ent C i p * occ * ent C j q * (if p = q then 1 else 0))"
      by (rule sum.cong, simp, rule sum.cong, simp)
         (simp add: orthonormal_rowsD [OF assms(2)])
    also have "\<dots> = (\<Sum>p<?n. ent C i p * occ * ent C j p)"
      by (rule sum.cong) (simp_all add: sum_pick)
    also have "\<dots> = (\<Sum>k\<leftarrow>[0..<ncols C]. ent C i k * occ * ent C j k)"
      by (simp add: sum_list_upt assms(1))
    finally show "(\<Sum>k\<leftarrow>[0..<?m]. ent (mat_mul C U) i k * occ * ent (mat_mul C U) j k)
        = (\<Sum>k\<leftarrow>[0..<ncols C]. ent C i k * occ * ent C j k)" .
  qed
  then show ?thesis by (simp add: density_def)
qed

text \<open>
  Claim C4. For each of the three partitioners, whenever it returns, the density matrix
  of the active columns plus the density matrix of the frozen columns is the density
  matrix of the matrix that the partitioner splits, all three built with one occupation
  number \<open>occ\<close> for every orbital (as \<^verbatim>\<open>make_dm\<close> does for a scalar occupation). This
  is the density matrix of the full occupied set whenever the rotation in between keeps
  densities: no localisation or a localisation by a matrix with orthonormal rows for the
  threshold closures, right singular vectors that are orthonormal for
  \<^verbatim>\<open>spade_partition\<close>. The equalities are exact in real arithmetic, so they hold within
  any tolerance. In \<^verbatim>\<open>embedding_procedure\<close> the frozen density is computed as the
  difference \<^verbatim>\<open>dens['ab'] - dens['a']\<close>.
\<close>

theorem density_additivity:
  assumes "given_or_occupied pyscf_mf c_occ_arg = Inr c_in"
  shows "((mulliken_partition pm thr localize pyscf_mf active_atoms c_occ_arg = Inr (c_a, c_b)
            \<or> occupancy_partition pm thr localize pyscf_mf active_atoms c_occ_arg
                 = Inr (c_a, c_b))
          \<longrightarrow> mat_add (density c_a (\<lambda>k. occ)) (density c_b (\<lambda>k. occ))
                = density (localized pm localize (mf_mol pyscf_mf) c_in) (\<lambda>k. occ)
            \<and> ((\<not> localize
                  \<or> (pm (mf_mol pyscf_mf) c_in = mat_mul c_in U \<and> ncols c_in = nrows U
                       \<and> orthonormal_rows U))
                 \<longrightarrow> mat_add (density c_a (\<lambda>k. occ)) (density c_b (\<lambda>k. occ))
                       = density c_in (\<lambda>k. occ)))
       \<and> (spade_partition sqrtm svd argpartition_last pyscf_mf active_atoms c_occ_arg
            = Inr (c_a, c_b)
          \<longrightarrow> (\<exists>c_orth. c_orthogonal_ao sqrtm pyscf_mf active_atoms c_in = Inr c_orth
                \<and> mat_add (density c_a (\<lambda>k. occ)) (density c_b (\<lambda>k. occ))
                    = density (mat_mul c_in (transpose_mat (snd (svd c_orth)))) (\<lambda>k. occ)
                \<and> (orthonormal_rows (transpose_mat (snd (svd c_orth)))
                     \<longrightarrow> mat_add (density c_a (\<lambda>k. occ)) (density c_b (\<lambda>k. occ))
                           = density c_in (\<lambda>k. occ))))
       \<and> (build_embedding distribute_mos init_mf atoms mu_val = Inr st
          \<longrightarrow> sub_arrays (st_dens_ab st) (st_dens_a st) = Inr (st_dens_b st))
       \<and> make_dm c_a (Scalar occ) = Inr (density c_a (\<lambda>k. occ))"
proof -
  let ?sum = "mat_add (density c_a (\<lambda>k. occ)) (density c_b (\<lambda>k. occ))"
  let ?loc = "localized pm localize (mf_mol pyscf_mf) c_in"
  have thr_split: "?sum = density ?loc (\<lambda>k. occ)"
    if "mulliken_partition pm thr localize pyscf_mf active_atoms c_occ_arg = Inr (c_a, c_b)
          \<or> occupancy_partition pm thr localize pyscf_mf active_atoms c_occ_arg = Inr (c_a, c_b)"
  proof -
    from that mulliken_partition_split [OF assms refl] occupancy_partition_split [OF assms refl]
    obtain idx_a idx_b where
      "nrows c_a = nrows ?loc" "nrows c_b = nrows ?loc"
      "columns c_a = map (column ?loc) idx_a" "columns c_b = map (column ?loc) idx_b"
      "mset (idx_a @ idx_b) = mset [0..<ncols ?loc]"
      by blast
    then show ?thesis by (rule density_split)
  qed
  have loc_same: "density ?loc (\<lambda>k. occ) = density c_in (\<lambda>k. occ)"
    if "\<not> localize \<or> (pm (mf_mol pyscf_mf) c_in = mat_mul c_in U \<and> ncols c_in = nrows U
                       \<and> orthonormal_rows U)"
  proof (cases localize)
    case False
    then show ?thesis by (simp add: localized_def)
  next
    case True
    with that have "?loc = mat_mul c_in U" "ncols c_in = nrows U" "orthonormal_rows U"
      by (simp_all add: localized_def)
    then show ?thesis by (simp add: density_rotate)
  qed
  have spade: "\<exists>c_orth. c_orthogonal_ao sqrtm pyscf_mf active_atoms c_in = Inr c_orth
                \<and> ?sum = density (mat_mul c_in (transpose_mat (snd (svd c_orth)))) (\<lambda>k. occ)
                \<and> (orthonormal_rows (transpose_mat (snd (svd c_orth)))
                     \<longrightarrow> ?sum = density c_in (\<lambda>k. occ))"
    if "spade_partition sqrtm svd argpartition_last pyscf_mf active_atoms c_occ_arg
            = Inr (c_a, c_b)"
  proof -
    from spade_partition_split [OF assms that] obtain c_orth idx_a idx_b where
      x: "c_orthogonal_ao sqrtm pyscf_mf active_atoms c_in = Inr c_orth" and
      sh: "ncols c_in = ncols (snd (svd c_orth))" and
      ra: "nrows c_a = nrows c_in" and rb: "nrows c_b = nrows c_in" and
      ca: "columns c_a = map (column (mat_mul c_in (transpose_mat (snd (svd c_orth))))) idx_a" and
      cb: "columns c_b = map (column (mat_mul c_in (transpose_mat (snd (svd c_orth))))) idx_b" and
      ms: "mset (idx_a @ idx_b) = mset [0..<nrows (snd (svd c_orth))]"
      by blast
    let ?M = "mat_mul c_in (transpose_mat (snd (svd c_orth)))"
    from ra rb have ra': "nrows c_a = nrows ?M" and rb': "nrows c_b = nrows ?M" by simp_all
    from ms have ms': "mset (idx_a @ idx_b) = mset [0..<ncols ?M]" by simp
    from density_split [OF ra' rb' ca cb ms'] have eq: "?sum = density ?M (\<lambda>k. occ)" .
    have "orthonormal_rows (transpose_mat (snd (svd c_orth))) \<longrightarrow> ?sum = density c_in (\<lambda>k. occ)"
    proof
      assume "orthonormal_rows (transpose_mat (snd (svd c_orth)))"
      moreover from sh have "ncols c_in = nrows (transpose_mat (snd (svd c_orth)))" by simp
      ultimately have "density ?M (\<lambda>k. occ) = density c_in (\<lambda>k. occ)"
        by (simp add: density_rotate)
      with eq show "?sum = density c_in (\<lambda>k. occ)" by simp
    qed
    with x eq show ?thesis by blast
  qed
  have emb: "sub_arrays (st_dens_ab st) (st_dens_a st) = Inr (st_dens_b st)"
    if "build_embedding distribute_mos init_mf atoms mu_val = Inr st"
    using that
    by (auto simp: build_embedding_def Let_def split: sum.splits prod.splits)
  have mk: "make_dm c_a (Scalar occ) = Inr (density c_a (\<lambda>k. occ))"
    by (simp add: make_dm_def)
  from thr_split loc_same spade emb mk show ?thesis by metis
qed

theorem density_additivity_witness:
  "given_or_occupied ex_mf3 None = Inr ex_c3
   \<and> mulliken_partition ex_pm (2/5) False ex_mf3 (Some [0, 1]) None = Inr (ex_act3, ex_frz3)
   \<and> spade_partition ex_sqrtm ex_svd ex_argmax ex_mf3 (Some [0, 1]) None
       = Inr (ex_act3, ex_frz3)
   \<and> orthonormal_rows (transpose_mat (snd (ex_svd ex_orth3)))
   \<and> build_embedding (mulliken_partition ex_pm (2/5) False) ex_mf (Some [0]) (Some 1000000)
       = Inr ex_state
   \<and> mat_add (density ex_act3 (\<lambda>k. 2)) (density ex_frz3 (\<lambda>k. 2)) = density ex_c3 (\<lambda>k. 2)
   \<and> sub_arrays (st_dens_ab ex_state) (st_dens_a ex_state) = Inr (st_dens_b ex_state)"
proof -
  have o: "orthonormal_rows (transpose_mat (snd (ex_svd ex_orth3)))" by code_simp
  from density_additivity
    [OF ex3_occupied, of ex_pm "2/5" False "Some [0, 1]" ex_act3 ex_frz3 2 ex_id2
       ex_sqrtm ex_svd ex_argmax "mulliken_partition ex_pm (2/5) False" ex_mf "Some [0]"
       "Some 1000000" ex_state]
    ex3_mulliken ex3_spade ex3_orth ex_build o ex3_occupied
  show ?thesis by auto
qed

end
